theory Spec2Isabelle
  imports Main
begin

section \<open>The Billy client (billy_client/api.py)\<close>

text \<open>
  The client wraps a few REST endpoints of the Billy recurring-payment server. Every
  operation builds one request, hands it to the HTTP library, checks the status code of
  the response and wraps the decoded body in a \<open>Resource\<close> object. The model keeps the
  request that was sent, the exception that was raised and the client object whose
  \<open>api_key\<close> an operation may overwrite.
\<close>

subsection \<open>Python values\<close>

text \<open>
  The values that travel through the client: what \<open>resp.json()\<close> decodes, what callers
  pass as arguments, what is put into a form body. A dict is a map from its keys. A
  \<open>PStr\<close> is a text string (the module and its tests have \<open>unicode_literals\<close>); the
  one byte string the client meets is the body of a response.
\<close>

datatype pyval =
    PNone
  | PBool bool
  | PInt int
  | PStr string
  | PList "pyval list"
  | PDict "string \<Rightarrow> pyval option"
  | PClient nat
  | PMember string

text \<open>
  \<open>PClient a\<close> is a reference to the \<open>BillyAPI\<close> object at address \<open>a\<close>;
  \<open>PMember n\<close> is what the attribute \<open>n\<close> of a class gives when it is no constant:
  a bound method or a slot of \<open>object\<close>.
\<close>

text \<open>Truth value testing, as in \<open>if refund_amount:\<close>.\<close>

fun truthy :: "pyval \<Rightarrow> bool" where
  "truthy PNone = False"
| "truthy (PBool b) = b"
| "truthy (PInt i) = (i \<noteq> 0)"
| "truthy (PStr s) = (s \<noteq> [])"
| "truthy (PList xs) = (xs \<noteq> [])"
| "truthy (PDict d) = (d \<noteq> Map.empty)"
| "truthy (PClient a) = True"
| "truthy (PMember n) = True"

text \<open>
  A string produced by \<open>template.format(args)\<close> is kept as the template and its
  arguments; \<open>Lit\<close> is a string literal of the source.
\<close>

datatype pytext = Lit string | Format string "pyval list"

text \<open>\<open>str(n)\<close> for an integer: its decimal digits, with a minus sign when negative.\<close>

fun digits :: "nat \<Rightarrow> string" where
  "digits n =
     (if n < 10 then [''0123456789'' ! n]
      else digits (n div 10) @ [''0123456789'' ! (n mod 10)])"

declare digits.simps [simp del]

definition str_int :: "int \<Rightarrow> string" where
  "str_int i = (if i < 0 then CHR ''-'' # digits (nat (- i)) else digits (nat i))"

text \<open>\<open>int(b)\<close> for a bool.\<close>

definition int_bool :: "bool \<Rightarrow> int" where
  "int_bool b = (if b then 1 else 0)"

subsection \<open>Naive datetimes and \<open>isoformat\<close>\<close>

text \<open>
  \<open>Plan.subscribe\<close> calls \<open>started_at.isoformat()\<close>. For a \<open>datetime.datetime\<close> without
  time zone the standard library returns \<open>YYYY-MM-DDTHH:MM:SS\<close>, followed by
  \<open>.ffffff\<close> when the microsecond is not zero.
\<close>

record datetime =
  year :: nat
  month :: nat
  day :: nat
  hour :: nat
  minute :: nat
  second :: nat
  microsecond :: nat

definition zfill :: "nat \<Rightarrow> string \<Rightarrow> string" where
  "zfill w s = replicate (w - length s) CHR ''0'' @ s"

definition isoformat :: "datetime \<Rightarrow> string" where
  "isoformat t =
     zfill 4 (digits (year t)) @ ''-'' @ zfill 2 (digits (month t)) @ ''-'' @
     zfill 2 (digits (day t)) @ ''T'' @ zfill 2 (digits (hour t)) @ '':'' @
     zfill 2 (digits (minute t)) @ '':'' @ zfill 2 (digits (second t)) @
     (if microsecond t = 0 then [] else ''.'' @ zfill 6 (digits (microsecond t)))"

subsection \<open>Exceptions\<close>

text \<open>
  \<open>BillyError\<close> derives from \<open>RuntimeError\<close> and \<open>BillyNotFoundError\<close> from
  \<open>BillyError\<close>; the others are the built-in classes of Python 2 that the code can
  raise.
\<close>

datatype exc_class =
    C_BaseException
  | C_Exception
  | C_StandardError
  | C_RuntimeError
  | C_LookupError
  | C_KeyError
  | C_AttributeError
  | C_TypeError
  | C_ValueError
  | C_UnicodeError
  | C_UnicodeDecodeError
  | C_BillyError
  | C_BillyNotFoundError

fun base :: "exc_class \<Rightarrow> exc_class option" where
  "base C_BaseException = None"
| "base C_Exception = Some C_BaseException"
| "base C_StandardError = Some C_Exception"
| "base C_RuntimeError = Some C_StandardError"
| "base C_LookupError = Some C_StandardError"
| "base C_KeyError = Some C_LookupError"
| "base C_AttributeError = Some C_StandardError"
| "base C_TypeError = Some C_StandardError"
| "base C_ValueError = Some C_StandardError"
| "base C_UnicodeError = Some C_ValueError"
| "base C_UnicodeDecodeError = Some C_UnicodeError"
| "base C_BillyError = Some C_RuntimeError"
| "base C_BillyNotFoundError = Some C_BillyError"

fun mro_upto :: "nat \<Rightarrow> exc_class \<Rightarrow> exc_class list" where
  "mro_upto 0 c = [c]"
| "mro_upto (Suc n) c = c # (case base c of None \<Rightarrow> [] | Some b \<Rightarrow> mro_upto n b)"

definition issubclass :: "exc_class \<Rightarrow> exc_class \<Rightarrow> bool" where
  "issubclass c d = (d \<in> set (mro_upto 13 c))"

text \<open>
  An exception instance with its \<open>args\<close>. Both Billy errors are raised with the message,
  the status code and the response body. \<open>AttributeError name\<close> says that the
  attribute \<open>name\<close> was not found.
\<close>

datatype error =
    BillyError pytext int string
  | BillyNotFoundError pytext int string
  | AttributeError string
  | TypeError
  | ValueError
  | UnicodeDecodeError

fun class_of :: "error \<Rightarrow> exc_class" where
  "class_of (BillyError m c b) = C_BillyError"
| "class_of (BillyNotFoundError m c b) = C_BillyNotFoundError"
| "class_of (AttributeError n) = C_AttributeError"
| "class_of TypeError = C_TypeError"
| "class_of ValueError = C_ValueError"
| "class_of UnicodeDecodeError = C_UnicodeDecodeError"

definition isinstance :: "error \<Rightarrow> exc_class \<Rightarrow> bool" where
  "isinstance e c = issubclass (class_of e) c"

subsection \<open>Requests, responses and the world\<close>

text \<open>
  \<open>Urljoin b p\<close> is \<open>urlparse.urljoin(b, p)\<close>. A request records what was handed to
  \<open>requests.get\<close> or \<open>requests.post\<close>; \<open>auth = None\<close> means that no \<open>auth\<close>
  argument was passed. A response has the three members the client reads: \<open>content\<close>
  is the body as a byte string, and \<open>json = None\<close> means that \<open>resp.json()\<close> raises
  \<open>ValueError\<close> because the body is not JSON.
\<close>

datatype url = Urljoin string pytext

datatype http_method = GET | POST

record request =
  meth :: http_method
  url :: url
  query :: "string \<Rightarrow> pyval option"
  data :: "string \<Rightarrow> pyval option"
  auth :: "(pyval \<times> string) option"

record response =
  status_code :: int
  content :: string
  json :: "pyval option"

text \<open>
  The \<open>BillyAPI\<close> object (its logger is never used). Client objects live in a store,
  since every \<open>Resource\<close> keeps a reference to the client that made it and
  \<open>create_company\<close> assigns to the client's \<open>api_key\<close>.
\<close>

record BillyAPI =
  api_key :: pyval
  endpoint :: string

definition DEFAULT_ENDPOINT :: string where
  "DEFAULT_ENDPOINT = ''https://billing.balancedpayments.com''"

record world =
  clients :: "nat \<Rightarrow> BillyAPI"
  sent :: "request list"

text \<open>
  The HTTP library and the server behind it: the response to the last request of a
  history of requests.
\<close>

type_synonym transport = "request list \<Rightarrow> response"

definition send :: "transport \<Rightarrow> request \<Rightarrow> world \<Rightarrow> response \<times> world" where
  "send http req w = (http (sent w @ [req]), w\<lparr>sent := sent w @ [req]\<rparr>)"

definition requests_post ::
  "transport \<Rightarrow> url \<Rightarrow> (string \<Rightarrow> pyval option) \<Rightarrow> (pyval \<times> string) option \<Rightarrow> world
     \<Rightarrow> response \<times> world" where
  "requests_post http u d a w =
     send http \<lparr>meth = POST, url = u, query = Map.empty, data = d, auth = a\<rparr> w"

definition requests_get ::
  "transport \<Rightarrow> url \<Rightarrow> (pyval \<times> string) option \<Rightarrow> world \<Rightarrow> response \<times> world" where
  "requests_get http u a w =
     send http \<lparr>meth = GET, url = u, query = Map.empty, data = Map.empty, auth = a\<rparr> w"

subsection \<open>Resource\<close>

datatype res_class = Resource | Company | Customer | Plan | Subscription

record resource =
  klass :: res_class
  api :: pyval
  json_data :: pyval

text \<open>The names bound in each class body, with the constants of \<open>Plan\<close>.\<close>

definition FREQ_ALL :: pyval where
  "FREQ_ALL = PList [PStr ''daily'', PStr ''weekly'', PStr ''monthly'', PStr ''yearly'']"

definition TYPE_ALL :: pyval where
  "TYPE_ALL = PList [PStr ''charge'', PStr ''payout'']"

fun class_body :: "res_class \<Rightarrow> (string \<times> pyval) list" where
  "class_body Resource =
     [(''__init__'', PMember ''__init__''), (''__unicode__'', PMember ''__unicode__''),
      (''__str__'', PMember ''__str__''), (''__getattr__'', PMember ''__getattr__'')]"
| "class_body Company =
     [(''create_customer'', PMember ''create_customer''),
      (''create_plan'', PMember ''create_plan'')]"
| "class_body Customer = []"
| "class_body Plan =
     [(''FREQ_DAILY'', PStr ''daily''), (''FREQ_WEEKLY'', PStr ''weekly''),
      (''FREQ_MONTHLY'', PStr ''monthly''), (''FREQ_YEARLY'', PStr ''yearly''),
      (''FREQ_ALL'', FREQ_ALL),
      (''TYPE_CHARGE'', PStr ''charge''), (''TYPE_PAYOUT'', PStr ''payout''),
      (''TYPE_ALL'', TYPE_ALL),
      (''subscribe'', PMember ''subscribe'')]"
| "class_body Subscription = [(''unsubscribe'', PMember ''unsubscribe'')]"

text \<open>
  What every instance of a new-style class has besides: the attributes of \<open>object\<close>
  and the slots \<open>__dict__\<close>, \<open>__weakref__\<close>, \<open>__module__\<close>.
\<close>

definition object_names :: "string list" where
  "object_names =
     [''__class__'', ''__delattr__'', ''__doc__'', ''__format__'', ''__getattribute__'',
      ''__hash__'', ''__init__'', ''__new__'', ''__reduce__'', ''__reduce_ex__'',
      ''__repr__'', ''__setattr__'', ''__sizeof__'', ''__str__'', ''__subclasshook__'',
      ''__dict__'', ''__weakref__'', ''__module__'']"

text \<open>Method resolution order: the class, then \<open>Resource\<close>, then \<open>object\<close>.\<close>

definition type_lookup :: "res_class \<Rightarrow> string \<Rightarrow> pyval option" where
  "type_lookup c name =
     (case map_of (class_body c) name of
        Some v \<Rightarrow> Some v
      | None \<Rightarrow>
          (case map_of (class_body Resource) name of
             Some v \<Rightarrow> Some v
           | None \<Rightarrow> if name \<in> set object_names then Some (PMember name) else None))"

text \<open>
  \<open>Resource.__getattr__\<close>. A missing key raises \<open>KeyError\<close>, and the handler evaluates
  \<open>super(Resource. self)\<close>: the argument is the attribute \<open>self\<close> of the class
  \<open>Resource\<close>, which does not exist, so \<open>AttributeError\<close> is raised there. Subscripting
  anything but a dict with a string raises \<open>TypeError\<close>.
\<close>

definition Resource_getattr :: "resource \<Rightarrow> string \<Rightarrow> error + pyval" where
  "Resource_getattr self key =
     (case json_data self of
        PDict d \<Rightarrow> (case d key of Some v \<Rightarrow> Inr v | None \<Rightarrow> Inl (AttributeError ''self''))
      | _ \<Rightarrow> Inl TypeError)"

text \<open>
  Reading \<open>obj.name\<close>: the instance's own attributes \<open>api\<close> and \<open>json_data\<close> (set by
  \<open>__init__\<close>), then the class and its bases; \<open>__getattr__\<close> is called only when both
  fail.
\<close>

definition getattr :: "resource \<Rightarrow> string \<Rightarrow> error + pyval" where
  "getattr obj name =
     (if name = ''api'' then Inr (api obj)
      else if name = ''json_data'' then Inr (json_data obj)
      else case type_lookup (klass obj) name of
             Some v \<Rightarrow> Inr v
           | None \<Rightarrow> Resource_getattr obj name)"

subsection \<open>BillyAPI\<close>

definition codes_ok :: int where
  "codes_ok = 200"

definition codes_not_found :: int where
  "codes_not_found = 404"

definition url_for :: "BillyAPI \<Rightarrow> pytext \<Rightarrow> url" where
  "url_for self path = Urljoin (endpoint self) path"

definition auth_args :: "BillyAPI \<Rightarrow> pyval \<times> string" where
  "auth_args self = (api_key self, [])"

text \<open>
  The module has \<open>unicode_literals\<close>, so the message templates of \<open>_check_response\<close>
  are unicode strings, while \<open>resp.content\<close> is a byte string: \<open>format\<close> decodes it
  as ASCII and raises \<open>UnicodeDecodeError\<close> when it has a byte above \<open>0x7F\<close>.
\<close>

definition is_ascii :: "string \<Rightarrow> bool" where
  "is_ascii s = list_all (\<lambda>c. of_char c < (128 :: nat)) s"

definition format_message :: "string \<Rightarrow> string \<Rightarrow> response \<Rightarrow> error + pytext" where
  "format_message template method_name resp =
     (if is_ascii (content resp)
      then Inr (Format template
                  [PStr method_name, PInt (status_code resp), PStr (content resp)])
      else Inl UnicodeDecodeError)"

definition check_response :: "string \<Rightarrow> response \<Rightarrow> error + unit" where
  "check_response method_name resp =
     (if status_code resp \<noteq> codes_ok then
        if status_code resp = codes_not_found then
          (case format_message ''No such record for {} with code {}, msg{}'' method_name resp of
             Inl e \<Rightarrow> Inl e
           | Inr msg \<Rightarrow> Inl (BillyNotFoundError msg (status_code resp) (content resp)))
        else
          (case format_message ''Failed to process {} with code {}, msg {}'' method_name resp of
             Inl e \<Rightarrow> Inl e
           | Inr msg \<Rightarrow> Inl (BillyError msg (status_code resp) (content resp)))
      else Inr ())"

text \<open>\<open>cls(api, resp.json())\<close>: the constructor call that ends every operation.\<close>

definition wrap :: "res_class \<Rightarrow> pyval \<Rightarrow> response \<Rightarrow> world \<Rightarrow> (error + resource) \<times> world" where
  "wrap c a resp w =
     (case json resp of
        None \<Rightarrow> (Inl ValueError, w)
      | Some j \<Rightarrow> (Inr \<lparr>klass = c, api = a, json_data = j\<rparr>, w))"

definition create_company ::
  "transport \<Rightarrow> nat \<Rightarrow> pyval \<Rightarrow> world \<Rightarrow> (error + resource) \<times> world" where
  "create_company http self processor_key w =
     (let u = url_for (clients w self) (Lit ''/v1/companies'');
          (resp, w1) = requests_post http u [''processor_key'' \<mapsto> processor_key] None w
      in case check_response ''create_company'' resp of
           Inl e \<Rightarrow> (Inl e, w1)
         | Inr _ \<Rightarrow>
             let w2 = w1\<lparr>clients := (clients w1)
                        (self := (clients w1 self)\<lparr>api_key := processor_key\<rparr>)\<rparr>
             in wrap Company (PClient self) resp w2)"

definition get_record ::
  "transport \<Rightarrow> nat \<Rightarrow> pyval \<Rightarrow> string \<Rightarrow> string \<Rightarrow> world \<Rightarrow> (error + resource) \<times> world" where
  "get_record http self guid path_name method_name w =
     (let u = url_for (clients w self) (Format ''/v1/{}/{}'' [PStr path_name, guid]);
          (resp, w1) = requests_get http u (Some (auth_args (clients w self))) w
      in case check_response method_name resp of
           Inl e \<Rightarrow> (Inl e, w1)
         | Inr _ \<Rightarrow> wrap Company (PClient self) resp w1)"

definition get_company ::
  "transport \<Rightarrow> nat \<Rightarrow> pyval \<Rightarrow> world \<Rightarrow> (error + resource) \<times> world" where
  "get_company http self guid = get_record http self guid ''companies'' ''get_company''"

definition get_customer ::
  "transport \<Rightarrow> nat \<Rightarrow> pyval \<Rightarrow> world \<Rightarrow> (error + resource) \<times> world" where
  "get_customer http self guid = get_record http self guid ''customers'' ''get_customer''"

definition get_plan ::
  "transport \<Rightarrow> nat \<Rightarrow> pyval \<Rightarrow> world \<Rightarrow> (error + resource) \<times> world" where
  "get_plan http self guid = get_record http self guid ''plans'' ''get_plans''"

definition get_subscription ::
  "transport \<Rightarrow> nat \<Rightarrow> pyval \<Rightarrow> world \<Rightarrow> (error + resource) \<times> world" where
  "get_subscription http self guid =
     get_record http self guid ''subscriptions'' ''get_subscriptions''"

subsection \<open>The operations of Company, Plan and Subscription\<close>

text \<open>
  \<open>self.api.name\<close> on a resource: the client it refers to, or \<open>AttributeError\<close> when
  \<open>api\<close> is not a client (the tests build resources with \<open>api = None\<close>).
\<close>

definition api_member :: "resource \<Rightarrow> string \<Rightarrow> error + nat" where
  "api_member self name =
     (case api self of PClient a \<Rightarrow> Inr a | _ \<Rightarrow> Inl (AttributeError name))"

definition create_customer ::
  "transport \<Rightarrow> resource \<Rightarrow> pyval \<Rightarrow> world \<Rightarrow> (error + resource) \<times> world" where
  "create_customer http self external_id w =
     (case api_member self ''_url_for'' of
        Inl e \<Rightarrow> (Inl e, w)
      | Inr a \<Rightarrow>
          (let u = url_for (clients w a) (Lit ''/v1/customers'');
              d = (if external_id \<noteq> PNone then [''external_id'' \<mapsto> external_id]
                   else Map.empty);
              (resp, w1) = requests_post http u d (Some (auth_args (clients w a))) w
          in case check_response ''create_customer'' resp of
               Inl e \<Rightarrow> (Inl e, w1)
             | Inr _ \<Rightarrow> wrap Customer (api self) resp w1))"

text \<open>\<open>interval\<close> defaults to 1.\<close>

definition create_plan ::
  "transport \<Rightarrow> resource \<Rightarrow> pyval \<Rightarrow> pyval \<Rightarrow> pyval \<Rightarrow> pyval option \<Rightarrow> world
     \<Rightarrow> (error + resource) \<times> world" where
  "create_plan http self plan_type frequency amount interval w =
     (case api_member self ''_url_for'' of
        Inl e \<Rightarrow> (Inl e, w)
      | Inr a \<Rightarrow>
          (let u = url_for (clients w a) (Lit ''/v1/plans'');
              d = [''plan_type'' \<mapsto> plan_type, ''frequency'' \<mapsto> frequency,
                   ''amount'' \<mapsto> amount,
                   ''interval'' \<mapsto> (case interval of None \<Rightarrow> PInt 1 | Some i \<Rightarrow> i)];
              (resp, w1) = requests_post http u d (Some (auth_args (clients w a))) w
          in case check_response ''create_plan'' resp of
               Inl e \<Rightarrow> (Inl e, w1)
             | Inr _ \<Rightarrow> wrap Plan (api self) resp w1))"

text \<open>
  \<open>payment_uri\<close> and \<open>amount\<close> default to \<open>None\<close>; \<open>started_at\<close> is \<open>None\<close> or a
  datetime.
\<close>

definition subscribe ::
  "transport \<Rightarrow> resource \<Rightarrow> pyval \<Rightarrow> pyval \<Rightarrow> pyval \<Rightarrow> datetime option \<Rightarrow> world
     \<Rightarrow> (error + resource) \<times> world" where
  "subscribe http self customer_guid payment_uri amount started_at w =
     (case api_member self ''_url_for'' of
        Inl e \<Rightarrow> (Inl e, w)
      | Inr a \<Rightarrow>
          (let u = url_for (clients w a) (Lit ''/v1/subscriptions'')
           in case getattr self ''guid'' of
               Inl e \<Rightarrow> (Inl e, w)
             | Inr g \<Rightarrow>
                 (let d0 = [''plan_guid'' \<mapsto> g, ''customer_guid'' \<mapsto> customer_guid];
                     d1 = (if payment_uri \<noteq> PNone then d0(''payment_uri'' \<mapsto> payment_uri)
                           else d0);
                     d2 = (if amount \<noteq> PNone then d1(''amount'' \<mapsto> amount) else d1);
                     d3 = (case started_at of
                             None \<Rightarrow> d2
                           | Some t \<Rightarrow> d2(''started_at'' \<mapsto> PStr (isoformat t)));
                     (resp, w1) = requests_post http u d3 (Some (auth_args (clients w a))) w
                 in case check_response ''subscribe'' resp of
                      Inl e \<Rightarrow> (Inl e, w1)
                    | Inr _ \<Rightarrow> wrap Subscription (api self) resp w1)))"

text \<open>\<open>prorated_refund\<close> defaults to \<open>False\<close> and \<open>refund_amount\<close> to \<open>None\<close>.\<close>

definition unsubscribe ::
  "transport \<Rightarrow> resource \<Rightarrow> bool \<Rightarrow> pyval \<Rightarrow> world \<Rightarrow> (error + resource) \<times> world" where
  "unsubscribe http self prorated_refund refund_amount w =
     (case api_member self ''_url_for'' of
        Inl e \<Rightarrow> (Inl e, w)
      | Inr a \<Rightarrow>
          (case getattr self ''guid'' of
             Inl e \<Rightarrow> (Inl e, w)
           | Inr g \<Rightarrow>
               (let u = url_for (clients w a) (Format ''/v1/subscriptions/{}/cancel'' [g]);
                   d0 = Map.empty;
                   d1 = (if prorated_refund
                         then d0(''prorated_refund'' \<mapsto> PStr (str_int (int_bool prorated_refund)))
                         else d0);
                   d2 = (if truthy refund_amount then d1(''refund_amount'' \<mapsto> refund_amount)
                         else d1);
                   (resp, w1) = requests_post http u d2 (Some (auth_args (clients w a))) w
               in case check_response ''unsubscribe'' resp of
                    Inl e \<Rightarrow> (Inl e, w1)
                  | Inr _ \<Rightarrow> wrap Subscription (api self) resp w1)))"

subsection \<open>Listing records\<close>

text \<open>
  Modelled from the spec: \<open>requests.get\<close> with query parameters, which the pagination
  helper needs and no operation of \<open>api.py\<close> uses. An empty \<open>query\<close> is a URL without
  query string.
\<close>

definition requests_get_query ::
  "transport \<Rightarrow> url \<Rightarrow> (string \<Rightarrow> pyval option) \<Rightarrow> (pyval \<times> string) option \<Rightarrow> world
     \<Rightarrow> response \<times> world" where
  "requests_get_query http u q a w =
     send http \<lparr>meth = GET, url = u, query = q, data = Map.empty, auth = a\<rparr> w"

text \<open>
  Modelled from the spec: the \<open>items\<close> list of a page, which the pagination helper
  (missing from \<open>api.py\<close>) accumulates. The spec does not say what a body without
  such a list does; here it raises \<open>TypeError\<close>.
\<close>

definition page_items :: "response \<Rightarrow> error + pyval list" where
  "page_items resp =
     (case json resp of
        None \<Rightarrow> Inl ValueError
      | Some (PDict d) \<Rightarrow> (case d ''items'' of Some (PList xs) \<Rightarrow> Inr xs | _ \<Rightarrow> Inl TypeError)
      | Some _ \<Rightarrow> Inl TypeError)"

text \<open>
  Modelled from the spec: the query of the next request of the pagination helper (missing
  from \<open>api.py\<close>): the offset is the page's own offset plus its reported limit, the
  limit is the one the page reports.
\<close>

definition next_query :: "response \<Rightarrow> error + (string \<Rightarrow> pyval option)" where
  "next_query resp =
     (case json resp of
        Some (PDict d) \<Rightarrow>
          (case (d ''offset'', d ''limit'') of
             (Some (PInt off), Some (PInt lim)) \<Rightarrow>
               Inr [''offset'' \<mapsto> PInt (off + lim), ''limit'' \<mapsto> PInt lim]
           | _ \<Rightarrow> Inl TypeError)
      | _ \<Rightarrow> Inl TypeError)"

text \<open>
  Modelled from the spec: the pagination helper, which is missing from \<open>api.py\<close> (only
  its tests are there). It issues a GET with the current query, raises the classified
  error when a page fails, stops at the first page without items and otherwise appends
  the page's items, each wrapped in the view of the collection. Against a server that
  never sends an empty page the loop does not end: the result is \<open>None\<close>.
\<close>

partial_function (option) list_records_from ::
  "transport \<Rightarrow> nat \<Rightarrow> string \<Rightarrow> string \<Rightarrow> res_class \<Rightarrow> (string \<Rightarrow> pyval option) \<Rightarrow>
     resource list \<Rightarrow> world \<Rightarrow> ((error + resource list) \<times> world) option" where
  "list_records_from http self path method_name c q acc w =
     (let u = url_for (clients w self) (Lit path);
          (resp, w1) = requests_get_query http u q (Some (auth_args (clients w self))) w
      in case check_response method_name resp of
           Inl e \<Rightarrow> Some (Inl e, w1)
         | Inr _ \<Rightarrow>
             (case page_items resp of
                Inl e \<Rightarrow> Some (Inl e, w1)
              | Inr items \<Rightarrow>
                  if items = [] then Some (Inr acc, w1)
                  else (case next_query resp of
                          Inl e \<Rightarrow> Some (Inl e, w1)
                        | Inr q' \<Rightarrow>
                            list_records_from http self path method_name c q'
                              (acc @ map (\<lambda>j. \<lparr>klass = c, api = PClient self, json_data = j\<rparr>) items)
                              w1)))"

text \<open>
  Modelled from the spec: the pagination helper started with the offset unset, so that
  the first request has no query parameters (missing from \<open>api.py\<close>).
\<close>

definition list_records ::
  "transport \<Rightarrow> nat \<Rightarrow> string \<Rightarrow> string \<Rightarrow> res_class \<Rightarrow> world
     \<Rightarrow> ((error + resource list) \<times> world) option" where
  "list_records http self path method_name c w =
     list_records_from http self path method_name c Map.empty [] w"

text \<open>
  Modelled from the spec: \<open>list_customers\<close>, missing from \<open>api.py\<close>; it delegates to
  the pagination helper against the customers collection.
\<close>

definition list_customers ::
  "transport \<Rightarrow> nat \<Rightarrow> world \<Rightarrow> ((error + resource list) \<times> world) option" where
  "list_customers http self = list_records http self ''/v1/customers'' ''list_customers'' Customer"

text \<open>
  Modelled from the spec: \<open>list_plans\<close>, missing from \<open>api.py\<close>; it delegates to the
  pagination helper against the plans collection.
\<close>

definition list_plans ::
  "transport \<Rightarrow> nat \<Rightarrow> world \<Rightarrow> ((error + resource list) \<times> world) option" where
  "list_plans http self = list_records http self ''/v1/plans'' ''list_plans'' Plan"

text \<open>
  Modelled from the spec: \<open>list_subscriptions\<close>, missing from \<open>api.py\<close>; it delegates
  to the pagination helper against the subscriptions collection.
\<close>

definition list_subscriptions ::
  "transport \<Rightarrow> nat \<Rightarrow> world \<Rightarrow> ((error + resource list) \<times> world) option" where
  "list_subscriptions http self =
     list_records http self ''/v1/subscriptions'' ''list_subscriptions'' Subscription"

text \<open>
  A server that pages: \<open>serves http n pages\<close> says that the \<open>k\<close>-th request after a
  history of \<open>n\<close> requests is answered with status 200 and the \<open>k\<close>-th page, a JSON
  object with \<open>offset\<close>, \<open>limit\<close> and \<open>items\<close>.
\<close>

record page =
  offset :: int
  limit :: int
  items :: "pyval list"

definition page_json :: "page \<Rightarrow> pyval" where
  "page_json p =
     PDict [''offset'' \<mapsto> PInt (offset p), ''limit'' \<mapsto> PInt (limit p),
            ''items'' \<mapsto> PList (items p)]"

definition serves :: "transport \<Rightarrow> nat \<Rightarrow> page list \<Rightarrow> bool" where
  "serves http n pages =
     (\<forall>k < length pages. \<forall>h. length h = n + k + 1 \<longrightarrow>
        status_code (http h) = 200 \<and> json (http h) = Some (page_json (pages ! k)))"

text \<open>
  The query that follows a page, and the queries of the requests that a run over
  \<open>pages\<close> issues, in order.
\<close>

definition query_after :: "page \<Rightarrow> (string \<Rightarrow> pyval option)" where
  "query_after p = [''offset'' \<mapsto> PInt (offset p + limit p), ''limit'' \<mapsto> PInt (limit p)]"

definition page_queries :: "page list \<Rightarrow> (string \<Rightarrow> pyval option) list" where
  "page_queries pages = Map.empty # map query_after (butlast pages)"

text \<open>
  The requests that a run over \<open>pages\<close> issues for a client and a collection path, and
  the views it returns: the items of all pages in order, each wrapped in the class of
  the collection.
\<close>

definition page_requests :: "BillyAPI \<Rightarrow> string \<Rightarrow> (string \<Rightarrow> pyval option) list \<Rightarrow> request list" where
  "page_requests client path qs =
     map (\<lambda>q. \<lparr>meth = GET, url = Urljoin (endpoint client) (Lit path), query = q,
               data = Map.empty, auth = Some (api_key client, [])\<rparr>) qs"

definition page_views :: "res_class \<Rightarrow> nat \<Rightarrow> page list \<Rightarrow> resource list" where
  "page_views c self pages =
     concat (map (\<lambda>p. map (\<lambda>j. \<lparr>klass = c, api = PClient self, json_data = j\<rparr>) (items p)) pages)"

subsection \<open>What a response does to an operation\<close>

text \<open>
  \<open>answers method_name resp r\<close>: \<open>r\<close> is the outcome that the response \<open>resp\<close> gives
  an operation which reports under \<open>method_name\<close>. Status 200 raises no Billy error:
  the outcome is a view of the decoded body (the decoder's \<open>ValueError\<close> when the body
  is not JSON). Status 404 raises \<open>BillyNotFoundError\<close> and any other status
  \<open>BillyError\<close>, both with the message formatted from the method name, the status code
  and the body, then the status code and the body. Nothing is said of a failing
  response whose body has a byte above \<open>0x7F\<close>.
\<close>

definition answers :: "string \<Rightarrow> response \<Rightarrow> error + resource \<Rightarrow> bool" where
  "answers method_name resp r =
     ((status_code resp = 200 \<longrightarrow>
         (case json resp of
            None \<Rightarrow> r = Inl ValueError
          | Some j \<Rightarrow> (\<exists>v. r = Inr v \<and> json_data v = j))) \<and>
      (status_code resp = 404 \<and> is_ascii (content resp) \<longrightarrow>
         r = Inl (BillyNotFoundError
                    (Format ''No such record for {} with code {}, msg{}''
                       [PStr method_name, PInt 404, PStr (content resp)])
                    404 (content resp))) \<and>
      (status_code resp \<noteq> 200 \<and> status_code resp \<noteq> 404 \<and> is_ascii (content resp) \<longrightarrow>
         r = Inl (BillyError
                    (Format ''Failed to process {} with code {}, msg {}''
                       [PStr method_name, PInt (status_code resp), PStr (content resp)])
                    (status_code resp) (content resp))))"

subsection \<open>The objects of the test suite\<close>

definition mock_api :: BillyAPI where
  "mock_api = \<lparr>api_key = PStr ''MOCK_API_KEY'', endpoint = ''http://localhost''\<rparr>"

definition mock_world :: world where
  "mock_world = \<lparr>clients = (\<lambda>_. mock_api), sent = []\<rparr>"

definition mock_response :: "int \<Rightarrow> string \<Rightarrow> pyval \<Rightarrow> response" where
  "mock_response code body j = \<lparr>status_code = code, content = body, json = Some j\<rparr>"

definition mock_record :: "string \<Rightarrow> pyval" where
  "mock_record g = PDict [''guid'' \<mapsto> PStr g]"

definition mock_pages :: "page list" where
  "mock_pages =
     [\<lparr>offset = 0, limit = 2,
        items = [mock_record ''MOCK_RECORD_GUID1'', mock_record ''MOCK_RECORD_GUID2'']\<rparr>,
      \<lparr>offset = 2, limit = 2,
        items = [mock_record ''MOCK_RECORD_GUID3'', mock_record ''MOCK_RECORD_GUID4'']\<rparr>,
      \<lparr>offset = 4, limit = 2, items = [mock_record ''MOCK_RECORD_GUID5'']\<rparr>,
      \<lparr>offset = 6, limit = 2, items = []\<rparr>]"

text \<open>The mock of \<open>requests.get\<close>: the answer depends on the number of calls so far.\<close>

definition mock_get :: transport where
  "mock_get h = mock_response 200 [] (page_json (mock_pages ! (length h - 1)))"

text \<open>The mocks of \<open>requests.post\<close>: a server error and a created company.\<close>

definition mock_post_503 :: transport where
  "mock_post_503 h = mock_response 503 ''Server error'' (mock_record ''MOCK_COMPANY_GUID'')"

definition mock_post_company :: transport where
  "mock_post_company h = mock_response 200 [] (mock_record ''MOCK_COMPANY_GUID'')"

definition mock_create_request :: request where
  "mock_create_request =
     \<lparr>meth = POST, url = Urljoin ''http://localhost'' (Lit ''/v1/companies''),
      query = Map.empty, data = [''processor_key'' \<mapsto> PStr ''MOCK_PROCESSOR_KEY''],
      auth = None\<rparr>"

definition mock_created_world :: world where
  "mock_created_world =
     \<lparr>clients = (\<lambda>_. mock_api)(0 := mock_api\<lparr>api_key := PStr ''MOCK_PROCESSOR_KEY''\<rparr>),
      sent = [mock_create_request]\<rparr>"

text \<open>The mocks of \<open>requests.get\<close>: a record that exists and one that does not.\<close>

definition mock_get_record :: transport where
  "mock_get_record h = mock_response 200 [] (mock_record ''MOCK_GUID'')"

definition mock_get_404 :: transport where
  "mock_get_404 h = mock_response 404 ''Not found'' (mock_record ''MOCK_GUID'')"

text \<open>\<open>Resource(None, dict(key='value'))\<close>.\<close>

definition mock_resource :: resource where
  "mock_resource = \<lparr>klass = Resource, api = PNone, json_data = PDict [''key'' \<mapsto> PStr ''value'']\<rparr>"

text \<open>The plan, the subscription, the time stamp and the server of the subscription tests.\<close>

definition mock_plan :: resource where
  "mock_plan = \<lparr>klass = Plan, api = PClient 0, json_data = mock_record ''MOCK_PLAN_GUID''\<rparr>"

definition mock_subscription :: resource where
  "mock_subscription =
     \<lparr>klass = Subscription, api = PClient 0, json_data = mock_record ''MOCK_SUBSCRIPTION_GUID''\<rparr>"

definition mock_now :: datetime where
  "mock_now = \<lparr>year = 2013, month = 8, day = 16, hour = 7, minute = 5, second = 59,
                microsecond = 1200\<rparr>"

definition mock_canceled :: pyval where
  "mock_canceled = PDict [''guid'' \<mapsto> PStr ''MOCK_SUBSCRIPTION_GUID'', ''canceled'' \<mapsto> PBool True]"

definition mock_post_subscription :: transport where
  "mock_post_subscription h = mock_response 200 [] mock_canceled"

text \<open>
  Responses outside the test suite: a page that is not JSON, and failures whose body is
  the UTF-8 encoding of a non-ASCII letter.
\<close>

definition mock_get_not_json :: transport where
  "mock_get_not_json h = \<lparr>status_code = 200, content = ''<html></html>'', json = None\<rparr>"

definition mock_get_404_bytes :: transport where
  "mock_get_404_bytes h = mock_response 404 [CHR 0xC3, CHR 0xA9] (mock_record ''MOCK_GUID'')"

definition mock_post_503_bytes :: transport where
  "mock_post_503_bytes h =
     mock_response 503 [CHR 0xC3, CHR 0xA9] (mock_record ''MOCK_COMPANY_GUID'')"

text \<open>\<open>Company(api, dict(guid='MOCK_COMPANY_GUID'))\<close>.\<close>

definition mock_company :: resource where
  "mock_company =
     \<lparr>klass = Company, api = PClient 0, json_data = mock_record ''MOCK_COMPANY_GUID''\<rparr>"

section \<open>Properties\<close>

subsection \<open>Auxiliary facts\<close>

lemma type_lookup_guid: "type_lookup c ''guid'' = None"
  by (cases c) (simp_all add: type_lookup_def object_names_def)

lemma getattr_guid:
  "json_data obj = PDict d \<Longrightarrow> d ''guid'' = Some g \<Longrightarrow> getattr obj ''guid'' = Inr g"
  by (simp add: getattr_def type_lookup_guid Resource_getattr_def)

lemma check_response_ok: "status_code resp = 200 \<Longrightarrow> check_response m resp = Inr ()"
  by (simp add: check_response_def codes_ok_def)

lemma check_response_raises:
  "status_code resp \<noteq> 200 \<Longrightarrow> \<exists>e. check_response m resp = Inl e"
  by (simp add: check_response_def codes_ok_def format_message_def)

lemma check_response_not_found:
  "status_code resp = 404 \<Longrightarrow> is_ascii (content resp) \<Longrightarrow>
   check_response m resp =
     Inl (BillyNotFoundError
            (Format ''No such record for {} with code {}, msg{}''
               [PStr m, PInt 404, PStr (content resp)])
            404 (content resp))"
  by (simp add: check_response_def codes_ok_def codes_not_found_def format_message_def)

lemma check_response_error:
  "status_code resp \<noteq> 200 \<Longrightarrow> status_code resp \<noteq> 404 \<Longrightarrow> is_ascii (content resp) \<Longrightarrow>
   check_response m resp =
     Inl (BillyError
            (Format ''Failed to process {} with code {}, msg {}''
               [PStr m, PInt (status_code resp), PStr (content resp)])
            (status_code resp) (content resp))"
  by (simp add: check_response_def codes_ok_def codes_not_found_def format_message_def)

lemma check_response_non_ascii:
  "status_code resp \<noteq> 200 \<Longrightarrow> \<not> is_ascii (content resp) \<Longrightarrow>
   check_response m resp = Inl UnicodeDecodeError"
  by (simp add: check_response_def codes_ok_def format_message_def)

lemma is_ascii_mock: "is_ascii ''Server error''" "is_ascii ''Not found''" "is_ascii []"
  "\<not> is_ascii [CHR 0xC3, CHR 0xA9]"
  by (simp_all add: is_ascii_def)

lemma snd_wrap: "snd (wrap c a resp w) = w"
  by (simp add: wrap_def split: option.split)

lemma get_record_sent:
  "sent (snd (get_record http self guid path_name method_name w)) =
     sent w @ [\<lparr>meth = GET, url = Urljoin (endpoint (clients w self))
                  (Format ''/v1/{}/{}'' [PStr path_name, guid]),
                query = Map.empty, data = Map.empty,
                auth = Some (api_key (clients w self), [])\<rparr>]"
  by (simp add: get_record_def requests_get_def send_def url_for_def auth_args_def snd_wrap
        Let_def split: sum.split)

subsection \<open>Company creation\<close>

lemma create_company_failure:
  assumes "create_company http self processor_key w = (r, w')"
      and "status_code (http (sent w')) \<noteq> 200"
  shows "(\<exists>e. r = Inl e \<and> check_response ''create_company'' (http (sent w')) = Inl e)
         \<and> clients w' = clients w"
proof -
  let ?req = "\<lparr>meth = POST, url = url_for (clients w self) (Lit ''/v1/companies''),
               query = Map.empty, data = [''processor_key'' \<mapsto> processor_key], auth = None\<rparr>"
  have s: "sent w' = sent w @ [?req]"
    using assms(1)
    by (auto simp: create_company_def requests_post_def send_def wrap_def Let_def
          split: sum.splits option.splits)
  with assms(2) have "status_code (http (sent w @ [?req])) \<noteq> 200" by simp
  then obtain e where e: "check_response ''create_company'' (http (sent w @ [?req])) = Inl e"
    using check_response_raises by blast
  with assms(1) have "r = Inl e" "clients w' = clients w"
    by (auto simp: create_company_def requests_post_def send_def Let_def)
  with e s show ?thesis by simp
qed

text \<open>
  C9 fails on the code. \<open>create_company\<close> is answered with status 503 and a body that is
  the UTF-8 encoding of a non-ASCII letter: building the message of the \<open>BillyError\<close>
  raises \<open>UnicodeDecodeError\<close>, which is no \<open>BillyError\<close>, so the classified error is
  not raised. The client's \<open>api_key\<close> is unchanged, as the claim says.
\<close>

theorem create_company_non_ascii_failure:
  "status_code (mock_post_503_bytes (sent mock_world @ [mock_create_request])) = 503
   \<and> content (mock_post_503_bytes (sent mock_world @ [mock_create_request]))
       = [CHR 0xC3, CHR 0xA9]
   \<and> create_company mock_post_503_bytes 0 (PStr ''MOCK_PROCESSOR_KEY'') mock_world
       = (Inl UnicodeDecodeError, mock_world\<lparr>sent := [mock_create_request]\<rparr>)
   \<and> \<not> isinstance UnicodeDecodeError C_BillyError
   \<and> api_key (clients (mock_world\<lparr>sent := [mock_create_request]\<rparr>) 0)
       = api_key (clients mock_world 0)"
proof -
  have r: "status_code (mock_post_503_bytes h) = 503"
    "content (mock_post_503_bytes h) = [CHR 0xC3, CHR 0xA9]" for h
    by (simp_all add: mock_post_503_bytes_def mock_response_def)
  have c: "check_response ''create_company'' (mock_post_503_bytes h) = Inl UnicodeDecodeError"
    for h
    by (rule check_response_non_ascii) (simp_all add: r is_ascii_mock)
  have run: "create_company mock_post_503_bytes 0 (PStr ''MOCK_PROCESSOR_KEY'') mock_world
       = (Inl UnicodeDecodeError, mock_world\<lparr>sent := [mock_create_request]\<rparr>)"
    by (simp add: create_company_def requests_post_def send_def c url_for_def
          mock_create_request_def)
       (simp add: mock_world_def mock_api_def)
  have i: "\<not> isinstance UnicodeDecodeError C_BillyError"
    by (simp add: isinstance_def issubclass_def eval_nat_numeral)
  from r run i show ?thesis by simp
qed

lemma create_company_sent:
  "sent (snd (create_company http self processor_key w)) =
     sent w @ [\<lparr>meth = POST, url = Urljoin (endpoint (clients w self)) (Lit ''/v1/companies''),
                query = Map.empty, data = [''processor_key'' \<mapsto> processor_key],
                auth = None\<rparr>]"
  by (simp add: create_company_def requests_post_def send_def url_for_def snd_wrap Let_def
        split: sum.split)

lemma create_company_ok:
  assumes "create_company http self processor_key w = (r, w')"
      and "status_code (http (sent w')) = 200"
  shows "r = (case json (http (sent w')) of None \<Rightarrow> Inl ValueError
              | Some j \<Rightarrow> Inr \<lparr>klass = Company, api = PClient self, json_data = j\<rparr>)"
    and "clients w' = (clients w)(self := (clients w self)\<lparr>api_key := processor_key\<rparr>)"
proof -
  let ?req = "\<lparr>meth = POST, url = Urljoin (endpoint (clients w self)) (Lit ''/v1/companies''),
               query = Map.empty, data = [''processor_key'' \<mapsto> processor_key], auth = None\<rparr>"
  have s: "sent w' = sent w @ [?req]"
    using create_company_sent [of http self processor_key w] assms(1) by simp
  with assms(2) have ok: "check_response ''create_company'' (http (sent w @ [?req])) = Inr ()"
    by (simp add: check_response_ok)
  from assms(1) ok s
  show "r = (case json (http (sent w')) of None \<Rightarrow> Inl ValueError
              | Some j \<Rightarrow> Inr \<lparr>klass = Company, api = PClient self, json_data = j\<rparr>)"
    by (auto simp: create_company_def requests_post_def send_def url_for_def wrap_def Let_def
          split: option.splits)
  from assms(1) ok
  show "clients w' = (clients w)(self := (clients w self)\<lparr>api_key := processor_key\<rparr>)"
    by (auto simp: create_company_def requests_post_def send_def url_for_def wrap_def Let_def
          split: option.splits)
qed

text \<open>
  C3. For every processor key \<open>P\<close>: when the response to \<open>create_company P\<close> has status
  200 and the body \<open>{"guid": "G"}\<close>, the call returns a \<open>Company\<close> whose attribute
  \<open>guid\<close> is \<open>"G"\<close>, and afterwards the client's \<open>api_key\<close> is \<open>P\<close>.
\<close>

theorem create_company_guid_and_credential:
  assumes "create_company http self P w = (r, w')"
      and "status_code (http (sent w')) = 200"
      and "json (http (sent w')) = Some (PDict [''guid'' \<mapsto> PStr G])"
  shows "\<exists>company. r = Inr company \<and> klass company = Company
           \<and> getattr company ''guid'' = Inr (PStr G) \<and> api_key (clients w' self) = P"
proof -
  from create_company_ok [OF assms(1,2)] assms(3)
  have r: "r = Inr \<lparr>klass = Company, api = PClient self,
                    json_data = PDict [''guid'' \<mapsto> PStr G]\<rparr>"
    and c: "clients w' = (clients w)(self := (clients w self)\<lparr>api_key := P\<rparr>)"
    by simp_all
  have "getattr \<lparr>klass = Company, api = PClient self,
                   json_data = PDict [''guid'' \<mapsto> PStr G]\<rparr> ''guid'' = Inr (PStr G)"
    by (rule getattr_guid [where d = "[''guid'' \<mapsto> PStr G]"]) simp_all
  with r c show ?thesis by simp
qed

text \<open>
  C2, as the code has it. \<open>create_company P\<close> sends one POST to \<open>/v1/companies\<close> on the
  client's endpoint, without \<open>auth\<close>, whose form body has the single field
  \<open>processor_key = P\<close>. On a 200 response with a JSON body it makes the processor key
  \<open>P\<close> (not the identifier in the response) the client's \<open>api_key\<close>, so that a later
  call authenticates with \<open>(P, '')\<close>, and it returns a \<open>Company\<close> that wraps the body.
\<close>

theorem create_company_adopts_processor_key:
  assumes "create_company http self P w = (r, w')"
      and "status_code (http (sent w')) = 200"
      and "json (http (sent w')) = Some j"
  shows "sent w' = sent w @ [\<lparr>meth = POST,
             url = Urljoin (endpoint (clients w self)) (Lit ''/v1/companies''),
             query = Map.empty, data = [''processor_key'' \<mapsto> P], auth = None\<rparr>]
         \<and> dom (data (last (sent w'))) = {''processor_key''}
         \<and> api_key (clients w' self) = P
         \<and> auth (last (sent (snd (get_company http' self guid w')))) = Some (P, [])
         \<and> r = Inr \<lparr>klass = Company, api = PClient self, json_data = j\<rparr>"
proof -
  have s: "sent w' = sent w @ [\<lparr>meth = POST,
             url = Urljoin (endpoint (clients w self)) (Lit ''/v1/companies''),
             query = Map.empty, data = [''processor_key'' \<mapsto> P], auth = None\<rparr>]"
    using create_company_sent [of http self P w] assms(1) by simp
  from create_company_ok [OF assms(1,2)] assms(3)
  have r: "r = Inr \<lparr>klass = Company, api = PClient self, json_data = j\<rparr>"
    and c: "clients w' = (clients w)(self := (clients w self)\<lparr>api_key := P\<rparr>)"
    by simp_all
  have k: "api_key (clients w' self) = P" by (simp add: c)
  have g: "auth (last (sent (snd (get_company http' self guid w')))) = Some (P, [])"
    by (simp add: get_company_def get_record_sent k)
  from s r k g show ?thesis by simp
qed

lemma mock_company_run:
  "create_company mock_post_company 0 (PStr ''MOCK_PROCESSOR_KEY'') mock_world =
     (Inr \<lparr>klass = Company, api = PClient 0, json_data = mock_record ''MOCK_COMPANY_GUID''\<rparr>,
      mock_created_world)"
  by (simp add: create_company_def requests_post_def send_def mock_post_company_def
        mock_response_def mock_world_def mock_api_def check_response_def codes_ok_def
        url_for_def mock_create_request_def wrap_def mock_created_world_def)

lemma mock_company_response:
  "status_code (mock_post_company (sent mock_created_world)) = 200"
  "json (mock_post_company (sent mock_created_world))
     = Some (PDict [''guid'' \<mapsto> PStr ''MOCK_COMPANY_GUID''])"
  by (simp_all add: mock_post_company_def mock_response_def mock_record_def)

theorem create_company_guid_and_credential_witness:
  "create_company mock_post_company 0 (PStr ''MOCK_PROCESSOR_KEY'') mock_world =
     (Inr \<lparr>klass = Company, api = PClient 0, json_data = mock_record ''MOCK_COMPANY_GUID''\<rparr>,
      mock_created_world)
   \<and> status_code (mock_post_company (sent mock_created_world)) = 200
   \<and> json (mock_post_company (sent mock_created_world))
       = Some (PDict [''guid'' \<mapsto> PStr ''MOCK_COMPANY_GUID''])
   \<and> getattr \<lparr>klass = Company, api = PClient 0,
                 json_data = mock_record ''MOCK_COMPANY_GUID''\<rparr> ''guid''
       = Inr (PStr ''MOCK_COMPANY_GUID'')
   \<and> api_key (clients mock_created_world 0) = PStr ''MOCK_PROCESSOR_KEY''"
  using create_company_guid_and_credential
          [OF mock_company_run mock_company_response(1) mock_company_response(2)]
        mock_company_run mock_company_response
  by auto

theorem create_company_adopts_processor_key_witness:
  "create_company mock_post_company 0 (PStr ''MOCK_PROCESSOR_KEY'') mock_world =
     (Inr \<lparr>klass = Company, api = PClient 0, json_data = mock_record ''MOCK_COMPANY_GUID''\<rparr>,
      mock_created_world)
   \<and> status_code (mock_post_company (sent mock_created_world)) = 200
   \<and> json (mock_post_company (sent mock_created_world))
       = Some (PDict [''guid'' \<mapsto> PStr ''MOCK_COMPANY_GUID''])
   \<and> sent mock_created_world = [mock_create_request]
   \<and> dom (data (last (sent mock_created_world))) = {''processor_key''}
   \<and> api_key (clients mock_created_world 0) = PStr ''MOCK_PROCESSOR_KEY''
   \<and> auth (last (sent (snd (get_company mock_post_company 0 (PStr ''MOCK_GUID'')
         mock_created_world)))) = Some (PStr ''MOCK_PROCESSOR_KEY'', [])"
  using create_company_adopts_processor_key
          [OF mock_company_run mock_company_response(1) mock_company_response(2),
           of mock_post_company "PStr ''MOCK_GUID''"]
        mock_company_run mock_company_response
  by (simp add: mock_world_def mock_api_def mock_create_request_def)

text \<open>
  C2 as stated fails: the server answers 200 with the guid \<open>MOCK_COMPANY_GUID\<close>, and the
  client's \<open>api_key\<close> afterwards is the processor key, not that guid.
\<close>

theorem create_company_credential_counterexample:
  "status_code (mock_post_company (sent mock_world @ [mock_create_request])) = 200
   \<and> json_data (projr (fst (create_company mock_post_company 0 (PStr ''MOCK_PROCESSOR_KEY'')
        mock_world))) = PDict [''guid'' \<mapsto> PStr ''MOCK_COMPANY_GUID'']
   \<and> api_key (clients (snd (create_company mock_post_company 0 (PStr ''MOCK_PROCESSOR_KEY'')
        mock_world)) 0) = PStr ''MOCK_PROCESSOR_KEY''
   \<and> api_key (clients (snd (create_company mock_post_company 0 (PStr ''MOCK_PROCESSOR_KEY'')
        mock_world)) 0) \<noteq> PStr ''MOCK_COMPANY_GUID''"
  unfolding mock_company_run
  by (simp add: mock_record_def mock_created_world_def mock_api_def mock_post_company_def
        mock_response_def)

subsection \<open>Fetching a record\<close>

text \<open>
  C1 fails on the code: \<open>_get_record\<close> builds a \<open>Company\<close> whatever the collection. For
  \<open>get_plan('MOCK_GUID')\<close> answered with status 200 and \<open>{"guid": "MOCK_GUID"}\<close> the
  result is a \<open>Company\<close> view of the body, not a \<open>Plan\<close>; likewise for \<open>get_customer\<close> and
  \<open>get_subscription\<close>.
\<close>

theorem get_plan_returns_company:
  "fst (get_plan mock_get_record 0 (PStr ''MOCK_GUID'') mock_world)
     = Inr \<lparr>klass = Company, api = PClient 0, json_data = mock_record ''MOCK_GUID''\<rparr>
   \<and> fst (get_customer mock_get_record 0 (PStr ''MOCK_GUID'') mock_world)
     = Inr \<lparr>klass = Company, api = PClient 0, json_data = mock_record ''MOCK_GUID''\<rparr>
   \<and> fst (get_subscription mock_get_record 0 (PStr ''MOCK_GUID'') mock_world)
     = Inr \<lparr>klass = Company, api = PClient 0, json_data = mock_record ''MOCK_GUID''\<rparr>
   \<and> Company \<noteq> Plan \<and> Company \<noteq> Customer \<and> Company \<noteq> Subscription"
  by (simp add: get_plan_def get_customer_def get_subscription_def get_record_def
        requests_get_def send_def mock_get_record_def mock_response_def check_response_def
        codes_ok_def wrap_def)

subsection \<open>Attribute access\<close>

text \<open>
  C10. Reading \<open>api\<close> or \<open>json_data\<close> on a resource gives the client reference and the
  raw mapping, also when the mapping itself has fields of these names: those fields are
  never reached by attribute access.
\<close>

theorem reserved_names_shadow_payload:
  "getattr obj ''api'' = Inr (api obj) \<and> getattr obj ''json_data'' = Inr (json_data obj)
   \<and> getattr \<lparr>klass = c, api = a, json_data = PDict (d(''api'' \<mapsto> v, ''json_data'' \<mapsto> v'))\<rparr>
         ''api'' = Inr a
   \<and> getattr \<lparr>klass = c, api = a, json_data = PDict (d(''api'' \<mapsto> v, ''json_data'' \<mapsto> v'))\<rparr>
         ''json_data'' = Inr (PDict (d(''api'' \<mapsto> v, ''json_data'' \<mapsto> v')))"
  by (simp add: getattr_def)

text \<open>
  C6, as the code has it. For a resource over a mapping \<open>d\<close> and a name that is neither
  \<open>api\<close> nor \<open>json_data\<close> nor an attribute of the class: reading the name gives the
  mapping's value when the name is a key, and raises \<open>AttributeError\<close>, which is no
  \<open>LookupError\<close>, when it is not.
\<close>

theorem getattr_forwards_to_mapping:
  assumes "json_data obj = PDict d"
      and "name \<noteq> ''api''" and "name \<noteq> ''json_data''"
      and "type_lookup (klass obj) name = None"
  shows "(d name = Some v \<longrightarrow> getattr obj name = Inr v) \<and>
         (d name = None \<longrightarrow>
            getattr obj name = Inl (AttributeError ''self'') \<and>
            isinstance (AttributeError ''self'') C_AttributeError \<and>
            \<not> isinstance (AttributeError ''self'') C_LookupError \<and>
            \<not> isinstance (AttributeError ''self'') C_KeyError)"
  using assms
  by (simp add: getattr_def Resource_getattr_def isinstance_def issubclass_def eval_nat_numeral)

lemma type_lookup_mock:
  "type_lookup Resource ''key'' = None" "type_lookup Resource ''no_such_thing'' = None"
  by (simp_all add: type_lookup_def object_names_def)

theorem getattr_forwards_to_mapping_witness:
  "json_data mock_resource = PDict [''key'' \<mapsto> PStr ''value'']
   \<and> type_lookup (klass mock_resource) ''key'' = None
   \<and> type_lookup (klass mock_resource) ''no_such_thing'' = None
   \<and> [''key'' \<mapsto> PStr ''value''] ''key'' = Some (PStr ''value'')
   \<and> getattr mock_resource ''key'' = Inr (PStr ''value'')
   \<and> [''key'' \<mapsto> PStr ''value''] ''no_such_thing'' = None
   \<and> getattr mock_resource ''no_such_thing'' = Inl (AttributeError ''self'')"
proof -
  have j: "json_data mock_resource = PDict [''key'' \<mapsto> PStr ''value'']"
    and k: "klass mock_resource = Resource"
    by (simp_all add: mock_resource_def)
  have t1: "type_lookup (klass mock_resource) ''key'' = None"
    and t2: "type_lookup (klass mock_resource) ''no_such_thing'' = None"
    by (simp_all add: k type_lookup_mock)
  from getattr_forwards_to_mapping [OF j _ _ t1, of "PStr ''value''"]
       getattr_forwards_to_mapping [OF j _ _ t2, of "PStr ''value''"] j t1 t2
  show ?thesis by simp
qed

text \<open>
  C6 as stated fails: the mapping has the key \<open>api\<close>, and reading the attribute \<open>api\<close>
  gives the client reference (here \<open>None\<close>), not the mapping's value.
\<close>

theorem getattr_reserved_key_counterexample:
  "[''api'' \<mapsto> PStr ''x''] ''api'' = Some (PStr ''x'') \<and>
   getattr \<lparr>klass = Resource, api = PNone, json_data = PDict [''api'' \<mapsto> PStr ''x'']\<rparr> ''api''
     = Inr PNone \<and>
   getattr \<lparr>klass = Resource, api = PNone, json_data = PDict [''api'' \<mapsto> PStr ''x'']\<rparr> ''api''
     \<noteq> Inr (PStr ''x'')"
  by (simp add: getattr_def)

subsection \<open>Subscribing and unsubscribing\<close>

lemma api_member_client: "api self = PClient a \<Longrightarrow> api_member self name = Inr a"
  by (simp add: api_member_def)

lemma post_sent:
  "sent (snd (case requests_post http u d a w of (resp, w1) \<Rightarrow>
      (case check_response m resp of Inl e \<Rightarrow> (Inl e, w1) | Inr x \<Rightarrow> wrap c p resp w1)))
   = sent w @ [\<lparr>meth = POST, url = u, query = Map.empty, data = d, auth = a\<rparr>]"
  by (simp add: requests_post_def send_def snd_wrap split: sum.split)

lemma subscribe_sent:
  assumes "api self = PClient a" and "getattr self ''guid'' = Inr g"
  shows "sent (snd (subscribe http self customer_guid payment_uri amount started_at w)) =
     sent w @ [\<lparr>meth = POST, url = Urljoin (endpoint (clients w a)) (Lit ''/v1/subscriptions''),
       query = Map.empty,
       data =
         (let d0 = [''plan_guid'' \<mapsto> g, ''customer_guid'' \<mapsto> customer_guid];
              d1 = (if payment_uri \<noteq> PNone then d0(''payment_uri'' \<mapsto> payment_uri) else d0);
              d2 = (if amount \<noteq> PNone then d1(''amount'' \<mapsto> amount) else d1)
          in case started_at of
               None \<Rightarrow> d2
             | Some t \<Rightarrow> d2(''started_at'' \<mapsto> PStr (isoformat t))),
       auth = Some (api_key (clients w a), [])\<rparr>]"
  unfolding subscribe_def api_member_client [OF assms(1)] assms(2) Let_def sum.case
    post_sent url_for_def auth_args_def
  by (rule refl)


lemma subscribe_data:
  fixes D :: "string \<Rightarrow> pyval option"
  assumes "D =
         (let d0 = [''plan_guid'' \<mapsto> g, ''customer_guid'' \<mapsto> customer_guid];
              d1 = (if payment_uri \<noteq> PNone then d0(''payment_uri'' \<mapsto> payment_uri) else d0);
              d2 = (if amount \<noteq> PNone then d1(''amount'' \<mapsto> amount) else d1)
          in case started_at of
               None \<Rightarrow> d2
             | Some t \<Rightarrow> d2(''started_at'' \<mapsto> PStr (isoformat t)))"
  shows "D ''plan_guid'' = Some g"
    and "D ''customer_guid'' = Some customer_guid"
    and "D ''payment_uri'' = (if payment_uri = PNone then None else Some payment_uri)"
    and "D ''amount'' = (if amount = PNone then None else Some amount)"
    and "D ''started_at'' = map_option (\<lambda>t. PStr (isoformat t)) started_at"
    and "dom D \<subseteq> {''plan_guid'', ''customer_guid'', ''payment_uri'', ''amount'',
                      ''started_at''}"
proof -
  show "D ''plan_guid'' = Some g"
    by (simp add: assms Let_def split: option.split)
  show "D ''customer_guid'' = Some customer_guid"
    by (simp add: assms Let_def split: option.split)
  show "D ''payment_uri'' = (if payment_uri = PNone then None else Some payment_uri)"
    by (simp add: assms Let_def split: option.split)
  show "D ''amount'' = (if amount = PNone then None else Some amount)"
    by (simp add: assms Let_def split: option.split)
  show "D ''started_at'' = map_option (\<lambda>t. PStr (isoformat t)) started_at"
    by (simp add: assms Let_def split: option.split)
  show "dom D \<subseteq> {''plan_guid'', ''customer_guid'', ''payment_uri'', ''amount'',
                      ''started_at''}"
    unfolding assms Let_def
    by (cases started_at) (simp_all add: subset_insertI2)
qed


text \<open>
  C7. \<open>Plan.subscribe\<close> on a plan whose client is \<open>a\<close> and whose mapping has the guid
  \<open>g\<close> sends one POST to \<open>/v1/subscriptions\<close> with the client's credential. Its form
  body always has \<open>plan_guid = g\<close> and \<open>customer_guid\<close>; \<open>payment_uri\<close> and \<open>amount\<close> are
  in it exactly when they are not \<open>None\<close>, \<open>started_at\<close> exactly when a time stamp was
  given, and then as the string \<open>isoformat\<close> returns; it has no other field.
\<close>

theorem subscribe_form_body:
  assumes "api self = PClient a"
      and "json_data self = PDict d" and "d ''guid'' = Some g"
      and "subscribe http self customer_guid payment_uri amount started_at w = (r, w')"
  shows "\<exists>req. sent w' = sent w @ [req] \<and> meth req = POST
           \<and> url req = Urljoin (endpoint (clients w a)) (Lit ''/v1/subscriptions'')
           \<and> auth req = Some (api_key (clients w a), [])
           \<and> data req ''plan_guid'' = Some g
           \<and> data req ''customer_guid'' = Some customer_guid
           \<and> data req ''payment_uri'' = (if payment_uri = PNone then None else Some payment_uri)
           \<and> data req ''amount'' = (if amount = PNone then None else Some amount)
           \<and> data req ''started_at'' = map_option (\<lambda>t. PStr (isoformat t)) started_at
           \<and> dom (data req) \<subseteq> {''plan_guid'', ''customer_guid'', ''payment_uri'', ''amount'',
                                  ''started_at''}"
proof -
  define D where "D =
         (let d0 = [''plan_guid'' \<mapsto> g, ''customer_guid'' \<mapsto> customer_guid];
              d1 = (if payment_uri \<noteq> PNone then d0(''payment_uri'' \<mapsto> payment_uri) else d0);
              d2 = (if amount \<noteq> PNone then d1(''amount'' \<mapsto> amount) else d1)
          in case started_at of
               None \<Rightarrow> d2
             | Some t \<Rightarrow> d2(''started_at'' \<mapsto> PStr (isoformat t)))"
  define req where "req = \<lparr>meth = POST,
       url = Urljoin (endpoint (clients w a)) (Lit ''/v1/subscriptions''),
       query = Map.empty, data = D, auth = Some (api_key (clients w a), [])\<rparr>"
  have g: "getattr self ''guid'' = Inr g"
    using assms(2,3) by (rule getattr_guid)
  have "sent w' = sent (snd (subscribe http self customer_guid payment_uri amount started_at w))"
    by (simp add: assms(4))
  then have s: "sent w' = sent w @ [req]"
    unfolding subscribe_sent [OF assms(1) g] req_def D_def .
  have q: "meth req = POST"
    "url req = Urljoin (endpoint (clients w a)) (Lit ''/v1/subscriptions'')"
    "auth req = Some (api_key (clients w a), [])" "data req = D"
    by (simp_all add: req_def)
  show ?thesis
    apply (rule exI [of _ req])
    unfolding q
    using s subscribe_data [OF D_def] by blast
qed


lemma mock_now_isoformat: "isoformat mock_now = ''2013-08-16T07:05:59.001200''"
  by code_simp

theorem subscribe_form_body_witness:
  "api mock_plan = PClient 0
   \<and> json_data mock_plan = PDict [''guid'' \<mapsto> PStr ''MOCK_PLAN_GUID'']
   \<and> [''guid'' \<mapsto> PStr ''MOCK_PLAN_GUID''] ''guid'' = Some (PStr ''MOCK_PLAN_GUID'')
   \<and> data (last (sent (snd (subscribe mock_post_subscription mock_plan
          (PStr ''MOCK_CUSTOMER_GUID'') (PStr ''MOCK_PAYMENT_URI'') (PStr ''55.66'')
          (Some mock_now) mock_world)))) ''plan_guid'' = Some (PStr ''MOCK_PLAN_GUID'')
   \<and> data (last (sent (snd (subscribe mock_post_subscription mock_plan
          (PStr ''MOCK_CUSTOMER_GUID'') (PStr ''MOCK_PAYMENT_URI'') (PStr ''55.66'')
          (Some mock_now) mock_world)))) ''amount'' = Some (PStr ''55.66'')
   \<and> data (last (sent (snd (subscribe mock_post_subscription mock_plan
          (PStr ''MOCK_CUSTOMER_GUID'') (PStr ''MOCK_PAYMENT_URI'') (PStr ''55.66'')
          (Some mock_now) mock_world)))) ''started_at''
       = Some (PStr ''2013-08-16T07:05:59.001200'')
   \<and> dom (data (last (sent (snd (subscribe mock_post_subscription mock_plan
          (PStr ''MOCK_CUSTOMER_GUID'') PNone PNone None mock_world)))))
       \<subseteq> {''plan_guid'', ''customer_guid'', ''payment_uri'', ''amount'', ''started_at''}
   \<and> data (last (sent (snd (subscribe mock_post_subscription mock_plan
          (PStr ''MOCK_CUSTOMER_GUID'') PNone PNone None mock_world)))) ''payment_uri'' = None
   \<and> data (last (sent (snd (subscribe mock_post_subscription mock_plan
          (PStr ''MOCK_CUSTOMER_GUID'') PNone PNone None mock_world)))) ''amount'' = None
   \<and> data (last (sent (snd (subscribe mock_post_subscription mock_plan
          (PStr ''MOCK_CUSTOMER_GUID'') PNone PNone None mock_world)))) ''started_at'' = None"
proof -
  have a: "api mock_plan = PClient 0"
    and j: "json_data mock_plan = PDict [''guid'' \<mapsto> PStr ''MOCK_PLAN_GUID'']"
    by (simp_all add: mock_plan_def mock_record_def)
  have k: "[''guid'' \<mapsto> PStr ''MOCK_PLAN_GUID''] ''guid'' = Some (PStr ''MOCK_PLAN_GUID'')"
    by simp
  from subscribe_form_body [OF a j k prod.collapse [symmetric],
         of mock_post_subscription "PStr ''MOCK_CUSTOMER_GUID''" "PStr ''MOCK_PAYMENT_URI''"
           "PStr ''55.66''" "Some mock_now" mock_world]
  obtain req where "sent (snd (subscribe mock_post_subscription mock_plan
          (PStr ''MOCK_CUSTOMER_GUID'') (PStr ''MOCK_PAYMENT_URI'') (PStr ''55.66'')
          (Some mock_now) mock_world)) = sent mock_world @ [req]"
     "data req ''plan_guid'' = Some (PStr ''MOCK_PLAN_GUID'')"
     "data req ''amount'' = Some (PStr ''55.66'')"
     "data req ''started_at'' = Some (PStr (isoformat mock_now))"
    by auto
  then have full: "data (last (sent (snd (subscribe mock_post_subscription mock_plan
          (PStr ''MOCK_CUSTOMER_GUID'') (PStr ''MOCK_PAYMENT_URI'') (PStr ''55.66'')
          (Some mock_now) mock_world)))) ''plan_guid'' = Some (PStr ''MOCK_PLAN_GUID'')"
     "data (last (sent (snd (subscribe mock_post_subscription mock_plan
          (PStr ''MOCK_CUSTOMER_GUID'') (PStr ''MOCK_PAYMENT_URI'') (PStr ''55.66'')
          (Some mock_now) mock_world)))) ''amount'' = Some (PStr ''55.66'')"
     "data (last (sent (snd (subscribe mock_post_subscription mock_plan
          (PStr ''MOCK_CUSTOMER_GUID'') (PStr ''MOCK_PAYMENT_URI'') (PStr ''55.66'')
          (Some mock_now) mock_world)))) ''started_at''
       = Some (PStr ''2013-08-16T07:05:59.001200'')"
    by (simp_all add: mock_now_isoformat)
  from subscribe_form_body [OF a j k prod.collapse [symmetric],
         of mock_post_subscription "PStr ''MOCK_CUSTOMER_GUID''" PNone PNone None mock_world]
  obtain req' where "sent (snd (subscribe mock_post_subscription mock_plan
          (PStr ''MOCK_CUSTOMER_GUID'') PNone PNone None mock_world)) = sent mock_world @ [req']"
     "dom (data req') \<subseteq> {''plan_guid'', ''customer_guid'', ''payment_uri'', ''amount'',
        ''started_at''}"
     "data req' ''payment_uri'' = None" "data req' ''amount'' = None"
     "data req' ''started_at'' = None"
    by auto
  then have bare: "dom (data (last (sent (snd (subscribe mock_post_subscription mock_plan
          (PStr ''MOCK_CUSTOMER_GUID'') PNone PNone None mock_world)))))
       \<subseteq> {''plan_guid'', ''customer_guid'', ''payment_uri'', ''amount'', ''started_at''}"
     "data (last (sent (snd (subscribe mock_post_subscription mock_plan
          (PStr ''MOCK_CUSTOMER_GUID'') PNone PNone None mock_world)))) ''payment_uri'' = None"
     "data (last (sent (snd (subscribe mock_post_subscription mock_plan
          (PStr ''MOCK_CUSTOMER_GUID'') PNone PNone None mock_world)))) ''amount'' = None"
     "data (last (sent (snd (subscribe mock_post_subscription mock_plan
          (PStr ''MOCK_CUSTOMER_GUID'') PNone PNone None mock_world)))) ''started_at'' = None"
    by simp_all
  from a j k full bare show ?thesis by blast
qed

lemma str_int_True: "str_int (int_bool True) = ''1''"
  by (simp add: str_int_def int_bool_def digits.simps)

lemma unsubscribe_sent:
  assumes "api self = PClient a" and "getattr self ''guid'' = Inr g"
  shows "sent (snd (unsubscribe http self prorated_refund refund_amount w)) =
     sent w @ [\<lparr>meth = POST,
       url = Urljoin (endpoint (clients w a)) (Format ''/v1/subscriptions/{}/cancel'' [g]),
       query = Map.empty,
       data =
         (if truthy refund_amount
          then (if prorated_refund
                then Map.empty(''prorated_refund'' \<mapsto> PStr (str_int (int_bool prorated_refund)))
                else Map.empty)(''refund_amount'' \<mapsto> refund_amount)
          else (if prorated_refund
                then Map.empty(''prorated_refund'' \<mapsto> PStr (str_int (int_bool prorated_refund)))
                else Map.empty)),
       auth = Some (api_key (clients w a), [])\<rparr>]"
  unfolding unsubscribe_def api_member_client [OF assms(1)] assms(2) Let_def sum.case
    post_sent url_for_def auth_args_def
  by (rule refl)

lemma unsubscribe_data:
  fixes D :: "string \<Rightarrow> pyval option"
  assumes "D =
         (if truthy refund_amount
          then (if prorated_refund
                then Map.empty(''prorated_refund'' \<mapsto> PStr (str_int (int_bool prorated_refund)))
                else Map.empty)(''refund_amount'' \<mapsto> refund_amount)
          else (if prorated_refund
                then Map.empty(''prorated_refund'' \<mapsto> PStr (str_int (int_bool prorated_refund)))
                else Map.empty))"
  shows "D ''prorated_refund'' = (if prorated_refund then Some (PStr ''1'') else None)"
    and "D ''refund_amount'' = (if truthy refund_amount then Some refund_amount else None)"
    and "dom D \<subseteq> {''prorated_refund'', ''refund_amount''}"
proof -
  show "D ''prorated_refund'' = (if prorated_refund then Some (PStr ''1'') else None)"
    by (simp add: assms str_int_True)
  show "D ''refund_amount'' = (if truthy refund_amount then Some refund_amount else None)"
    by (simp add: assms)
  show "dom D \<subseteq> {''prorated_refund'', ''refund_amount''}"
    by (simp add: assms)
qed

lemma post_result:
  assumes "status_code (http (sent w @ [\<lparr>meth = POST, url = u, query = Map.empty, data = d,
              auth = a\<rparr>])) = 200"
      and "json (http (sent w @ [\<lparr>meth = POST, url = u, query = Map.empty, data = d,
              auth = a\<rparr>])) = Some j"
  shows "fst (case requests_post http u d a w of (resp, w1) \<Rightarrow>
      (case check_response m resp of Inl e \<Rightarrow> (Inl e, w1) | Inr x \<Rightarrow> wrap c p resp w1))
   = Inr \<lparr>klass = c, api = p, json_data = j\<rparr>"
  using assms by (simp add: requests_post_def send_def wrap_def check_response_ok)

text \<open>
  C8. \<open>Subscription.unsubscribe\<close> on a subscription whose client is \<open>a\<close> and whose
  mapping has the guid \<open>g\<close> sends one POST to \<open>/v1/subscriptions/{g}/cancel\<close>. The form
  body has \<open>prorated_refund = "1"\<close> exactly when \<open>prorated_refund\<close> is true,
  \<open>refund_amount\<close> exactly when the argument is truthy, and nothing else. On a 200
  response with a JSON body the call returns a new \<open>Subscription\<close> that wraps the body.
\<close>

theorem unsubscribe_form_body:
  assumes "api self = PClient a"
      and "json_data self = PDict d" and "d ''guid'' = Some g"
      and "unsubscribe http self prorated_refund refund_amount w = (r, w')"
  shows "\<exists>req. sent w' = sent w @ [req] \<and> meth req = POST
           \<and> url req = Urljoin (endpoint (clients w a))
                         (Format ''/v1/subscriptions/{}/cancel'' [g])
           \<and> auth req = Some (api_key (clients w a), [])
           \<and> data req ''prorated_refund'' = (if prorated_refund then Some (PStr ''1'') else None)
           \<and> data req ''refund_amount''
               = (if truthy refund_amount then Some refund_amount else None)
           \<and> dom (data req) \<subseteq> {''prorated_refund'', ''refund_amount''}
           \<and> (status_code (http (sent w')) = 200 \<and> json (http (sent w')) = Some j \<longrightarrow>
                r = Inr \<lparr>klass = Subscription, api = api self, json_data = j\<rparr>)"
proof -
  define D where "D =
         (if truthy refund_amount
          then (if prorated_refund
                then Map.empty(''prorated_refund'' \<mapsto> PStr (str_int (int_bool prorated_refund)))
                else Map.empty)(''refund_amount'' \<mapsto> refund_amount)
          else (if prorated_refund
                then Map.empty(''prorated_refund'' \<mapsto> PStr (str_int (int_bool prorated_refund)))
                else Map.empty))"
  define req where "req = \<lparr>meth = POST,
       url = Urljoin (endpoint (clients w a)) (Format ''/v1/subscriptions/{}/cancel'' [g]),
       query = Map.empty, data = D, auth = Some (api_key (clients w a), [])\<rparr>"
  have g: "getattr self ''guid'' = Inr g"
    using assms(2,3) by (rule getattr_guid)
  have "sent w' = sent (snd (unsubscribe http self prorated_refund refund_amount w))"
    by (simp add: assms(4))
  then have s: "sent w' = sent w @ [req]"
    unfolding unsubscribe_sent [OF assms(1) g] req_def D_def .
  have q: "meth req = POST"
    "url req = Urljoin (endpoint (clients w a)) (Format ''/v1/subscriptions/{}/cancel'' [g])"
    "auth req = Some (api_key (clients w a), [])" "data req = D"
    by (simp_all add: req_def)
  have res: "r = Inr \<lparr>klass = Subscription, api = api self, json_data = j\<rparr>"
    if "status_code (http (sent w')) = 200" "json (http (sent w')) = Some j"
  proof -
    from that have "status_code (http (sent w @ [req])) = 200"
      "json (http (sent w @ [req])) = Some j"
      by (simp_all add: s)
    then have "fst (unsubscribe http self prorated_refund refund_amount w)
        = Inr \<lparr>klass = Subscription, api = api self, json_data = j\<rparr>"
      unfolding unsubscribe_def api_member_client [OF assms(1)] g Let_def sum.case
        url_for_def auth_args_def req_def D_def
      by (rule post_result)
    then show ?thesis by (simp add: assms(4))
  qed
  show ?thesis
    apply (rule exI [of _ req])
    unfolding q
    using s unsubscribe_data [OF D_def] res by blast
qed

theorem unsubscribe_form_body_witness:
  "api mock_subscription = PClient 0
   \<and> json_data mock_subscription = PDict [''guid'' \<mapsto> PStr ''MOCK_SUBSCRIPTION_GUID'']
   \<and> [''guid'' \<mapsto> PStr ''MOCK_SUBSCRIPTION_GUID''] ''guid''
       = Some (PStr ''MOCK_SUBSCRIPTION_GUID'')
   \<and> status_code (mock_post_subscription (sent (snd (unsubscribe mock_post_subscription
          mock_subscription True (PStr ''123'') mock_world)))) = 200
   \<and> json (mock_post_subscription (sent (snd (unsubscribe mock_post_subscription
          mock_subscription True (PStr ''123'') mock_world)))) = Some mock_canceled
   \<and> fst (unsubscribe mock_post_subscription mock_subscription True (PStr ''123'') mock_world)
       = Inr \<lparr>klass = Subscription, api = PClient 0, json_data = mock_canceled\<rparr>
   \<and> url (last (sent (snd (unsubscribe mock_post_subscription mock_subscription True
          (PStr ''123'') mock_world))))
       = Urljoin ''http://localhost''
           (Format ''/v1/subscriptions/{}/cancel'' [PStr ''MOCK_SUBSCRIPTION_GUID''])
   \<and> data (last (sent (snd (unsubscribe mock_post_subscription mock_subscription True
          (PStr ''123'') mock_world)))) ''prorated_refund'' = Some (PStr ''1'')
   \<and> data (last (sent (snd (unsubscribe mock_post_subscription mock_subscription True
          (PStr ''123'') mock_world)))) ''refund_amount'' = Some (PStr ''123'')
   \<and> data (last (sent (snd (unsubscribe mock_post_subscription mock_subscription False
          PNone mock_world)))) ''prorated_refund'' = None
   \<and> data (last (sent (snd (unsubscribe mock_post_subscription mock_subscription False
          PNone mock_world)))) ''refund_amount'' = None"
proof -
  have a: "api mock_subscription = PClient 0"
    and j: "json_data mock_subscription = PDict [''guid'' \<mapsto> PStr ''MOCK_SUBSCRIPTION_GUID'']"
    by (simp_all add: mock_subscription_def mock_record_def)
  have k: "[''guid'' \<mapsto> PStr ''MOCK_SUBSCRIPTION_GUID''] ''guid''
       = Some (PStr ''MOCK_SUBSCRIPTION_GUID'')"
    by simp
  have st: "status_code (mock_post_subscription h) = 200"
    and js: "json (mock_post_subscription h) = Some mock_canceled" for h
    by (simp_all add: mock_post_subscription_def mock_response_def)
  have e: "endpoint (clients mock_world 0) = ''http://localhost''"
    by (simp add: mock_world_def mock_api_def)
  from unsubscribe_form_body [OF a j k prod.collapse [symmetric],
         of mock_post_subscription True "PStr ''123''" mock_world mock_canceled]
  obtain req where "sent (snd (unsubscribe mock_post_subscription mock_subscription True
          (PStr ''123'') mock_world)) = sent mock_world @ [req]"
     "url req = Urljoin (endpoint (clients mock_world 0))
           (Format ''/v1/subscriptions/{}/cancel'' [PStr ''MOCK_SUBSCRIPTION_GUID''])"
     "data req ''prorated_refund'' = Some (PStr ''1'')"
     "data req ''refund_amount'' = Some (PStr ''123'')"
     "fst (unsubscribe mock_post_subscription mock_subscription True (PStr ''123'') mock_world)
       = Inr \<lparr>klass = Subscription, api = api mock_subscription, json_data = mock_canceled\<rparr>"
    by (auto simp: st js)
  then have full: "fst (unsubscribe mock_post_subscription mock_subscription True (PStr ''123'')
          mock_world)
       = Inr \<lparr>klass = Subscription, api = PClient 0, json_data = mock_canceled\<rparr>"
     "url (last (sent (snd (unsubscribe mock_post_subscription mock_subscription True
          (PStr ''123'') mock_world))))
       = Urljoin ''http://localhost''
           (Format ''/v1/subscriptions/{}/cancel'' [PStr ''MOCK_SUBSCRIPTION_GUID''])"
     "data (last (sent (snd (unsubscribe mock_post_subscription mock_subscription True
          (PStr ''123'') mock_world)))) ''prorated_refund'' = Some (PStr ''1'')"
     "data (last (sent (snd (unsubscribe mock_post_subscription mock_subscription True
          (PStr ''123'') mock_world)))) ''refund_amount'' = Some (PStr ''123'')"
    by (simp_all add: a e)
  from unsubscribe_form_body [OF a j k prod.collapse [symmetric],
         of mock_post_subscription False PNone mock_world mock_canceled]
  obtain req' where "sent (snd (unsubscribe mock_post_subscription mock_subscription False
          PNone mock_world)) = sent mock_world @ [req']"
     "data req' ''prorated_refund'' = None" "data req' ''refund_amount'' = None"
    by auto
  then have bare: "data (last (sent (snd (unsubscribe mock_post_subscription mock_subscription
          False PNone mock_world)))) ''prorated_refund'' = None"
     "data (last (sent (snd (unsubscribe mock_post_subscription mock_subscription False
          PNone mock_world)))) ''refund_amount'' = None"
    by simp_all
  from a j k st js full bare show ?thesis by blast
qed

subsection \<open>Classifying responses\<close>

lemma answers_checked:
  "answers m resp
     (fst (case check_response m resp of Inl e \<Rightarrow> (Inl e, w1) | Inr x \<Rightarrow> wrap c p resp w2))"
proof (cases "status_code resp = 200")
  case True
  then show ?thesis
    by (simp add: answers_def check_response_ok wrap_def split: option.split)
next
  case False
  show ?thesis
  proof (cases "is_ascii (content resp)")
    case True
    with False show ?thesis
      by (cases "status_code resp = 404")
         (simp_all add: answers_def check_response_not_found check_response_error)
  next
    case False
    with \<open>status_code resp \<noteq> 200\<close> show ?thesis
      by (simp add: answers_def)
  qed
qed

lemma answers_post:
  assumes "X = (case requests_post http u d a w of (resp, w1) \<Rightarrow>
      (case check_response m resp of Inl e \<Rightarrow> (Inl e, w1) | Inr x \<Rightarrow> wrap c p resp w1))"
  shows "answers m (http (sent (snd X))) (fst X)"
proof -
  let ?req = "\<lparr>meth = POST, url = u, query = Map.empty, data = d, auth = a\<rparr>"
  let ?w1 = "w\<lparr>sent := sent w @ [?req]\<rparr>"
  have X: "X = (case check_response m (http (sent w @ [?req])) of
                  Inl e \<Rightarrow> (Inl e, ?w1) | Inr x \<Rightarrow> wrap c p (http (sent w @ [?req])) ?w1)"
    by (simp add: assms requests_post_def send_def)
  have "sent (snd X) = sent w @ [?req]"
    unfolding assms by (rule post_sent)
  then show ?thesis
    unfolding X by (simp only: answers_checked)
qed

lemma answers_get:
  assumes "X = (case requests_get http u a w of (resp, w1) \<Rightarrow>
      (case check_response m resp of Inl e \<Rightarrow> (Inl e, w1) | Inr x \<Rightarrow> wrap c p resp w1))"
  shows "answers m (http (sent (snd X))) (fst X)"
proof -
  let ?req = "\<lparr>meth = GET, url = u, query = Map.empty, data = Map.empty, auth = a\<rparr>"
  let ?w1 = "w\<lparr>sent := sent w @ [?req]\<rparr>"
  have X: "X = (case check_response m (http (sent w @ [?req])) of
                  Inl e \<Rightarrow> (Inl e, ?w1) | Inr x \<Rightarrow> wrap c p (http (sent w @ [?req])) ?w1)"
    by (simp add: assms requests_get_def send_def)
  have "sent (snd X) = sent w @ [?req]"
    unfolding X by (simp add: snd_wrap split: sum.split)
  then show ?thesis
    unfolding X by (simp only: answers_checked)
qed

lemma get_record_answers:
  "answers method_name (http (sent (snd (get_record http self guid path_name method_name w))))
     (fst (get_record http self guid path_name method_name w))"
  by (rule answers_get) (simp add: get_record_def Let_def)

lemma create_company_answers:
  "answers ''create_company'' (http (sent (snd (create_company http self processor_key w))))
     (fst (create_company http self processor_key w))"
proof -
  obtain r w' where run: "create_company http self processor_key w = (r, w')"
    by (cases "create_company http self processor_key w")
  have "answers ''create_company'' (http (sent w')) r"
  proof (cases "status_code (http (sent w')) = 200")
    case True
    from create_company_ok(1) [OF run True] True show ?thesis
      by (simp add: answers_def split: option.split)
  next
    case False
    from create_company_failure [OF run False]
    obtain e where e: "r = Inl e" "check_response ''create_company'' (http (sent w')) = Inl e"
      by blast
    show ?thesis
    proof (cases "is_ascii (content (http (sent w')))")
      case True
      with False e show ?thesis
        by (cases "status_code (http (sent w')) = 404")
           (simp_all add: answers_def check_response_not_found check_response_error)
    next
      case False
      with \<open>status_code (http (sent w')) \<noteq> 200\<close> show ?thesis
        by (simp add: answers_def)
    qed
  qed
  then show ?thesis by (simp add: run)
qed

lemma create_customer_answers:
  assumes "api self = PClient a"
  shows "answers ''create_customer''
           (http (sent (snd (create_customer http self external_id w))))
           (fst (create_customer http self external_id w))"
  by (rule answers_post)
     (simp add: create_customer_def api_member_client [OF assms] Let_def)

lemma create_plan_answers:
  assumes "api self = PClient a"
  shows "answers ''create_plan''
           (http (sent (snd (create_plan http self plan_type frequency amount interval w))))
           (fst (create_plan http self plan_type frequency amount interval w))"
  by (rule answers_post)
     (simp add: create_plan_def api_member_client [OF assms] Let_def)

lemma subscribe_answers:
  assumes "api self = PClient a" and "json_data self = PDict d" and "d ''guid'' = Some g"
  shows "answers ''subscribe''
           (http (sent (snd (subscribe http self customer_guid payment_uri amount started_at w))))
           (fst (subscribe http self customer_guid payment_uri amount started_at w))"
  by (rule answers_post)
     (simp add: subscribe_def api_member_client [OF assms(1)] getattr_guid [OF assms(2,3)]
        Let_def)

lemma unsubscribe_answers:
  assumes "api self = PClient a" and "json_data self = PDict d" and "d ''guid'' = Some g"
  shows "answers ''unsubscribe''
           (http (sent (snd (unsubscribe http self prorated_refund refund_amount w))))
           (fst (unsubscribe http self prorated_refund refund_amount w))"
  by (rule answers_post)
     (simp add: unsubscribe_def api_member_client [OF assms(1)] getattr_guid [OF assms(2,3)]
        Let_def)

text \<open>
  C5, as the code has it. Every operation of \<open>api.py\<close> that has sent its request treats
  the response as \<open>answers\<close> says, under its own method name: status 200 raises no Billy
  error and gives a view of the decoded body, status 404 with an ASCII body raises
  \<open>BillyNotFoundError\<close>, any other status with an ASCII body raises \<open>BillyError\<close>, both
  carrying the message formatted from the method name, the status code and the body,
  then the status code and the body. For \<open>get_plan\<close> and \<open>get_subscription\<close> the name
  in the message is left open. The operations of a resource send their request when
  its \<open>api\<close> is a client (and, for \<open>subscribe\<close> and \<open>unsubscribe\<close>, its mapping has a
  guid). \<open>BillyNotFoundError\<close> is a subclass of \<open>BillyError\<close>, not the converse.
\<close>

theorem operations_classify_responses:
  "answers ''create_company''
     (http (sent (snd (create_company http self processor_key w))))
     (fst (create_company http self processor_key w))
   \<and> answers ''get_company''
       (http (sent (snd (get_company http self guid w)))) (fst (get_company http self guid w))
   \<and> answers ''get_customer''
       (http (sent (snd (get_customer http self guid w)))) (fst (get_customer http self guid w))
   \<and> (\<exists>m. answers m
       (http (sent (snd (get_plan http self guid w)))) (fst (get_plan http self guid w)))
   \<and> (\<exists>m. answers m
       (http (sent (snd (get_subscription http self guid w))))
       (fst (get_subscription http self guid w)))
   \<and> (api obj = PClient a \<longrightarrow>
        answers ''create_customer''
          (http (sent (snd (create_customer http obj external_id w))))
          (fst (create_customer http obj external_id w)))
   \<and> (api obj = PClient a \<longrightarrow>
        answers ''create_plan''
          (http (sent (snd (create_plan http obj plan_type frequency amount interval w))))
          (fst (create_plan http obj plan_type frequency amount interval w)))
   \<and> (api obj = PClient a \<and> json_data obj = PDict d \<and> d ''guid'' = Some g \<longrightarrow>
        answers ''subscribe''
          (http (sent (snd (subscribe http obj customer_guid payment_uri amount started_at w))))
          (fst (subscribe http obj customer_guid payment_uri amount started_at w)))
   \<and> (api obj = PClient a \<and> json_data obj = PDict d \<and> d ''guid'' = Some g \<longrightarrow>
        answers ''unsubscribe''
          (http (sent (snd (unsubscribe http obj prorated_refund refund_amount w))))
          (fst (unsubscribe http obj prorated_refund refund_amount w)))
   \<and> issubclass C_BillyNotFoundError C_BillyError
   \<and> isinstance (BillyNotFoundError t c b) C_BillyError
   \<and> \<not> issubclass C_BillyError C_BillyNotFoundError"
proof -
  have p: "\<exists>m. answers m
       (http (sent (snd (get_plan http self guid w)))) (fst (get_plan http self guid w))"
    unfolding get_plan_def by (rule exI) (rule get_record_answers)
  have s: "\<exists>m. answers m
       (http (sent (snd (get_subscription http self guid w))))
       (fst (get_subscription http self guid w))"
    unfolding get_subscription_def by (rule exI) (rule get_record_answers)
  have h: "issubclass C_BillyNotFoundError C_BillyError"
    "isinstance (BillyNotFoundError t c b) C_BillyError"
    "\<not> issubclass C_BillyError C_BillyNotFoundError"
    by (simp_all add: isinstance_def issubclass_def eval_nat_numeral)
  show ?thesis
    using create_company_answers [of http self processor_key w]
      get_record_answers [of "''get_company''" http self guid "''companies''" w]
      get_record_answers [of "''get_customer''" http self guid "''customers''" w]
      p s h
      create_customer_answers [of obj a http external_id w]
      create_plan_answers [of obj a http plan_type frequency amount interval w]
      subscribe_answers [of obj a d g http customer_guid payment_uri amount started_at w]
      unsubscribe_answers [of obj a d g http prorated_refund refund_amount w]
    unfolding get_company_def get_customer_def
    by blast
qed

lemma mock_responses:
  "status_code (mock_post_503 h) = 503" "content (mock_post_503 h) = ''Server error''"
  "status_code (mock_get_404 h) = 404" "content (mock_get_404 h) = ''Not found''"
  "status_code (mock_get_record h) = 200" "json (mock_get_record h) = Some (mock_record ''MOCK_GUID'')"
  "status_code (mock_post_subscription h) = 200"
  "json (mock_post_subscription h) = Some mock_canceled"
  by (simp_all add: mock_post_503_def mock_get_404_def mock_get_record_def
        mock_post_subscription_def mock_response_def)

theorem operations_classify_responses_witness:
  "status_code (mock_post_503 (sent (snd (create_company mock_post_503 0
       (PStr ''MOCK_PROCESSOR_KEY'') mock_world)))) = 503
   \<and> fst (create_company mock_post_503 0 (PStr ''MOCK_PROCESSOR_KEY'') mock_world)
       = Inl (BillyError
                (Format ''Failed to process {} with code {}, msg {}''
                   [PStr ''create_company'', PInt 503, PStr ''Server error''])
                503 ''Server error'')
   \<and> status_code (mock_get_404 (sent (snd (get_company mock_get_404 0 (PStr ''MOCK_GUID'')
         mock_world)))) = 404
   \<and> fst (get_company mock_get_404 0 (PStr ''MOCK_GUID'') mock_world)
       = Inl (BillyNotFoundError
                (Format ''No such record for {} with code {}, msg{}''
                   [PStr ''get_company'', PInt 404, PStr ''Not found''])
                404 ''Not found'')
   \<and> status_code (mock_get_record (sent (snd (get_company mock_get_record 0 (PStr ''MOCK_GUID'')
         mock_world)))) = 200
   \<and> (\<exists>v. fst (get_company mock_get_record 0 (PStr ''MOCK_GUID'') mock_world) = Inr v
           \<and> json_data v = mock_record ''MOCK_GUID'')
   \<and> api mock_company = PClient 0
   \<and> fst (create_customer mock_post_503 mock_company PNone mock_world)
       = Inl (BillyError
                (Format ''Failed to process {} with code {}, msg {}''
                   [PStr ''create_customer'', PInt 503, PStr ''Server error''])
                503 ''Server error'')
   \<and> api mock_subscription = PClient 0
   \<and> json_data mock_subscription = PDict [''guid'' \<mapsto> PStr ''MOCK_SUBSCRIPTION_GUID'']
   \<and> (\<exists>v. fst (unsubscribe mock_post_subscription mock_subscription False PNone mock_world)
           = Inr v \<and> json_data v = mock_canceled)"
proof -
  have a: "api mock_company = PClient 0" "api mock_subscription = PClient 0"
    and j: "json_data mock_subscription = PDict [''guid'' \<mapsto> PStr ''MOCK_SUBSCRIPTION_GUID'']"
    by (simp_all add: mock_company_def mock_subscription_def mock_record_def)
  have "answers ''create_company''
     (mock_post_503 (sent (snd (create_company mock_post_503 0 (PStr ''MOCK_PROCESSOR_KEY'')
        mock_world))))
     (fst (create_company mock_post_503 0 (PStr ''MOCK_PROCESSOR_KEY'') mock_world))"
    by (rule operations_classify_responses [THEN conjunct1])
  then have c1: "fst (create_company mock_post_503 0 (PStr ''MOCK_PROCESSOR_KEY'') mock_world)
       = Inl (BillyError
                (Format ''Failed to process {} with code {}, msg {}''
                   [PStr ''create_company'', PInt 503, PStr ''Server error''])
                503 ''Server error'')"
    by (simp add: answers_def mock_responses is_ascii_mock)
  have "answers ''get_company''
     (mock_get_404 (sent (snd (get_company mock_get_404 0 (PStr ''MOCK_GUID'') mock_world))))
     (fst (get_company mock_get_404 0 (PStr ''MOCK_GUID'') mock_world))"
    by (rule operations_classify_responses [THEN conjunct2, THEN conjunct1])
  then have c2: "fst (get_company mock_get_404 0 (PStr ''MOCK_GUID'') mock_world)
       = Inl (BillyNotFoundError
                (Format ''No such record for {} with code {}, msg{}''
                   [PStr ''get_company'', PInt 404, PStr ''Not found''])
                404 ''Not found'')"
    by (simp add: answers_def mock_responses is_ascii_mock)
  have "answers ''get_company''
     (mock_get_record (sent (snd (get_company mock_get_record 0 (PStr ''MOCK_GUID'')
        mock_world))))
     (fst (get_company mock_get_record 0 (PStr ''MOCK_GUID'') mock_world))"
    by (rule operations_classify_responses [THEN conjunct2, THEN conjunct1])
  then have c3: "\<exists>v. fst (get_company mock_get_record 0 (PStr ''MOCK_GUID'') mock_world) = Inr v
           \<and> json_data v = mock_record ''MOCK_GUID''"
    by (simp add: answers_def mock_responses)
  have "answers ''create_customer''
     (mock_post_503 (sent (snd (create_customer mock_post_503 mock_company PNone mock_world))))
     (fst (create_customer mock_post_503 mock_company PNone mock_world))"
    by (rule operations_classify_responses
          [THEN conjunct2, THEN conjunct2, THEN conjunct2, THEN conjunct2, THEN conjunct2,
           THEN conjunct1, THEN mp])
       (rule a(1))
  then have c4: "fst (create_customer mock_post_503 mock_company PNone mock_world)
       = Inl (BillyError
                (Format ''Failed to process {} with code {}, msg {}''
                   [PStr ''create_customer'', PInt 503, PStr ''Server error''])
                503 ''Server error'')"
    by (simp add: answers_def mock_responses is_ascii_mock)
  have "answers ''unsubscribe''
     (mock_post_subscription (sent (snd (unsubscribe mock_post_subscription mock_subscription
        False PNone mock_world))))
     (fst (unsubscribe mock_post_subscription mock_subscription False PNone mock_world))"
    by (rule operations_classify_responses
          [where a = 0 and d = "[''guid'' \<mapsto> PStr ''MOCK_SUBSCRIPTION_GUID'']"
             and g = "PStr ''MOCK_SUBSCRIPTION_GUID''",
           THEN conjunct2, THEN conjunct2, THEN conjunct2, THEN conjunct2, THEN conjunct2,
           THEN conjunct2, THEN conjunct2, THEN conjunct2, THEN conjunct1, THEN mp])
       (simp add: a(2) j)
  then have c5: "\<exists>v. fst (unsubscribe mock_post_subscription mock_subscription False PNone
           mock_world) = Inr v \<and> json_data v = mock_canceled"
    by (simp add: answers_def mock_responses)
  from a j c1 c2 c3 c4 c5 show ?thesis
    by (simp add: mock_responses)
qed

text \<open>
  C5 as stated fails. \<open>get_company\<close> answered with status 200 and a body that is not
  JSON raises \<open>ValueError\<close>. Answered with status 404 and a body that is the UTF-8
  encoding of a non-ASCII letter it raises \<open>UnicodeDecodeError\<close>, which is no
  \<open>BillyError\<close>. The error of \<open>get_plan\<close> carries the name \<open>get_plans\<close>.
\<close>

theorem operations_classify_responses_counterexample:
  "status_code (mock_get_not_json (sent (snd (get_company mock_get_not_json 0
       (PStr ''MOCK_GUID'') mock_world)))) = 200
   \<and> fst (get_company mock_get_not_json 0 (PStr ''MOCK_GUID'') mock_world) = Inl ValueError
   \<and> status_code (mock_get_404_bytes (sent (snd (get_company mock_get_404_bytes 0
         (PStr ''MOCK_GUID'') mock_world)))) = 404
   \<and> fst (get_company mock_get_404_bytes 0 (PStr ''MOCK_GUID'') mock_world)
       = Inl UnicodeDecodeError
   \<and> \<not> isinstance UnicodeDecodeError C_BillyError
   \<and> fst (get_plan mock_get_404 0 (PStr ''MOCK_GUID'') mock_world)
       = Inl (BillyNotFoundError
                (Format ''No such record for {} with code {}, msg{}''
                   [PStr ''get_plans'', PInt 404, PStr ''Not found''])
                404 ''Not found'')
   \<and> ''get_plans'' \<noteq> ''get_plan''"
proof -
  have n: "status_code (mock_get_not_json h) = 200" "json (mock_get_not_json h) = None" for h
    by (simp_all add: mock_get_not_json_def)
  have b: "status_code (mock_get_404_bytes h) = 404"
    "check_response m (mock_get_404_bytes h) = Inl UnicodeDecodeError" for h m
    by (simp_all add: mock_get_404_bytes_def mock_response_def check_response_non_ascii
          is_ascii_mock)
  have f: "check_response m (mock_get_404 h) =
     Inl (BillyNotFoundError
            (Format ''No such record for {} with code {}, msg{}''
               [PStr m, PInt 404, PStr ''Not found''])
            404 ''Not found'')" for h m
    using check_response_not_found [of "mock_get_404 h" m]
    by (simp add: mock_responses is_ascii_mock)
  have 1: "fst (get_company mock_get_not_json 0 (PStr ''MOCK_GUID'') mock_world) = Inl ValueError"
    by (simp add: get_company_def get_record_def requests_get_def send_def check_response_ok n
          wrap_def)
  have 2: "fst (get_company mock_get_404_bytes 0 (PStr ''MOCK_GUID'') mock_world)
       = Inl UnicodeDecodeError"
    by (simp add: get_company_def get_record_def requests_get_def send_def b)
  have 3: "fst (get_plan mock_get_404 0 (PStr ''MOCK_GUID'') mock_world)
       = Inl (BillyNotFoundError
                (Format ''No such record for {} with code {}, msg{}''
                   [PStr ''get_plans'', PInt 404, PStr ''Not found''])
                404 ''Not found'')"
    by (simp add: get_plan_def get_record_def requests_get_def send_def f)
  have 4: "\<not> isinstance UnicodeDecodeError C_BillyError"
    by (simp add: isinstance_def issubclass_def eval_nat_numeral)
  from n b 1 2 3 4 show ?thesis by simp
qed

subsection \<open>Listing records\<close>

lemma serves_head:
  "serves http n (p # ps) \<Longrightarrow> length h = Suc n \<Longrightarrow>
   status_code (http h) = 200 \<and> json (http h) = Some (page_json p)"
  unfolding serves_def by (drule spec [of _ 0]) simp

lemma serves_tail: "serves http n (p # ps) \<Longrightarrow> serves http (Suc n) ps"
  unfolding serves_def
proof (intro allI impI)
  fix k and h :: "request list"
  assume a: "\<forall>k<length (p # ps). \<forall>h. length h = n + k + 1 \<longrightarrow>
            status_code (http h) = 200 \<and> json (http h) = Some (page_json ((p # ps) ! k))"
    and k: "k < length ps" and h: "length h = Suc n + k + 1"
  from k have "Suc k < length (p # ps)" by simp
  with a h have "status_code (http h) = 200 \<and> json (http h) = Some (page_json ((p # ps) ! Suc k))"
    by (metis add_Suc_right add_Suc)
  then show "status_code (http h) = 200 \<and> json (http h) = Some (page_json (ps ! k))"
    by simp
qed

lemma page_items_json: "json resp = Some (page_json p) \<Longrightarrow> page_items resp = Inr (items p)"
  by (simp add: page_items_def page_json_def)

lemma next_query_json:
  "json resp = Some (page_json p) \<Longrightarrow>
   next_query resp = Inr (query_after p)"
  by (simp add: next_query_def page_json_def query_after_def)

lemma list_records_from_step:
  assumes "status_code (http (sent w @ [req])) = 200"
      and "json (http (sent w @ [req])) = Some (page_json p)"
      and "req = \<lparr>meth = GET, url = Urljoin (endpoint (clients w self)) (Lit path), query = q,
                   data = Map.empty, auth = Some (api_key (clients w self), [])\<rparr>"
  shows "list_records_from http self path m c q acc w =
     (if items p = [] then Some (Inr acc, w\<lparr>sent := sent w @ [req]\<rparr>)
      else list_records_from http self path m c (query_after p)
             (acc @ map (\<lambda>j. \<lparr>klass = c, api = PClient self, json_data = j\<rparr>) (items p))
             (w\<lparr>sent := sent w @ [req]\<rparr>))"
  apply (subst list_records_from.simps)
  using assms(1,2) unfolding assms(3)
  by (simp add: requests_get_query_def send_def url_for_def auth_args_def check_response_ok
        page_items_json next_query_json)

lemma list_records_from_pages:
  assumes "serves http (length (sent w)) pages"
      and "pages \<noteq> []"
      and "\<forall>p \<in> set (butlast pages). items p \<noteq> []"
      and "items (last pages) = []"
  shows "list_records_from http self path m c q acc w =
     Some (Inr (acc @ page_views c self pages),
           w\<lparr>sent := sent w @ page_requests (clients w self) path
                (q # map query_after (butlast pages))\<rparr>)"
  using assms
proof (induction pages arbitrary: q acc w)
  case Nil
  then show ?case by simp
next
  case (Cons p ps)
  let ?req = "\<lparr>meth = GET, url = Urljoin (endpoint (clients w self)) (Lit path), query = q,
                data = Map.empty, auth = Some (api_key (clients w self), [])\<rparr>"
  let ?w1 = "w\<lparr>sent := sent w @ [?req]\<rparr>"
  let ?q' = "query_after p"
  have "length (sent w @ [?req]) = Suc (length (sent w))" by simp
  from serves_head [OF Cons.prems(1) this]
  have st: "status_code (http (sent w @ [?req])) = 200"
    and js: "json (http (sent w @ [?req])) = Some (page_json p)"
    by simp_all
  note step = list_records_from_step [where req = "?req" and m = m and c = c and acc = acc
      and http = http and w = w and p = p and self = self and path = path and q = q,
      OF st js refl]
  have views: "page_views c self (p # ps) =
      map (\<lambda>j. \<lparr>klass = c, api = PClient self, json_data = j\<rparr>) (items p) @ page_views c self ps"
    by (simp add: page_views_def)
  have reqs: "page_requests cl path (q0 # qs) =
      \<lparr>meth = GET, url = Urljoin (endpoint cl) (Lit path), query = q0,
        data = Map.empty, auth = Some (api_key cl, [])\<rparr> # page_requests cl path qs" for cl q0 qs
    by (simp add: page_requests_def)
  show ?case
  proof (cases "ps = []")
    case True
    with Cons.prems(4) have "items p = []" by simp
    with True step show ?thesis
      by (simp add: views reqs) (simp add: page_views_def page_requests_def)
  next
    case False
    with Cons.prems(3) have ne: "items p \<noteq> []" by simp
    from False Cons.prems(3) have b: "\<forall>p \<in> set (butlast ps). items p \<noteq> []" by simp
    from False Cons.prems(4) have l: "items (last ps) = []" by simp
    from serves_tail [OF Cons.prems(1)] have s: "serves http (length (sent ?w1)) ps" by simp
    have "list_records_from http self path m c q acc w =
            list_records_from http self path m c ?q'
              (acc @ map (\<lambda>j. \<lparr>klass = c, api = PClient self, json_data = j\<rparr>) (items p)) ?w1"
      using step ne by simp
    also have "\<dots> = Some (Inr ((acc @ map (\<lambda>j. \<lparr>klass = c, api = PClient self, json_data = j\<rparr>)
                    (items p)) @ page_views c self ps),
           ?w1\<lparr>sent := sent ?w1 @ page_requests (clients ?w1 self) path
                (?q' # map query_after (butlast ps))\<rparr>)"
      by (rule Cons.IH [OF s False b l])
    finally show ?thesis
      using False by (simp add: views reqs)
  qed
qed

text \<open>
  C4, for the pagination helper as the spec describes it. Against a server that answers
  the requests with the pages \<open>pages\<close>, all but the last with items and the last one
  empty, \<open>list_customers\<close>, \<open>list_plans\<close> and \<open>list_subscriptions\<close> return: the result
  is the items of all pages in server order, wrapped as \<open>Customer\<close>, \<open>Plan\<close> and
  \<open>Subscription\<close>, after exactly one GET per page to the collection path; the first GET
  has no query parameters and each later one has the offset and limit computed from
  the page before it (its offset plus its limit, and its limit).
\<close>

theorem list_records_paginate:
  assumes "serves http (length (sent w)) pages"
      and "pages \<noteq> []"
      and "\<forall>p \<in> set (butlast pages). items p \<noteq> []"
      and "items (last pages) = []"
  shows "list_customers http self w =
           Some (Inr (page_views Customer self pages),
                 w\<lparr>sent := sent w @ page_requests (clients w self) ''/v1/customers''
                                    (page_queries pages)\<rparr>)
       \<and> list_plans http self w =
           Some (Inr (page_views Plan self pages),
                 w\<lparr>sent := sent w @ page_requests (clients w self) ''/v1/plans''
                                    (page_queries pages)\<rparr>)
       \<and> list_subscriptions http self w =
           Some (Inr (page_views Subscription self pages),
                 w\<lparr>sent := sent w @ page_requests (clients w self) ''/v1/subscriptions''
                                    (page_queries pages)\<rparr>)
       \<and> length (page_queries pages) = length pages
       \<and> hd (page_queries pages) = Map.empty
       \<and> (\<forall>i. Suc i < length pages \<longrightarrow>
             page_queries pages ! Suc i =
               [''offset'' \<mapsto> PInt (offset (pages ! i) + limit (pages ! i)),
                ''limit'' \<mapsto> PInt (limit (pages ! i))])"
proof -
  have q: "length (page_queries pages) = length pages"
    using assms(2) by (simp add: page_queries_def)
  have h: "hd (page_queries pages) = Map.empty"
    by (simp add: page_queries_def)
  have n: "page_queries pages ! Suc i =
               [''offset'' \<mapsto> PInt (offset (pages ! i) + limit (pages ! i)),
                ''limit'' \<mapsto> PInt (limit (pages ! i))]" if "Suc i < length pages" for i
  proof -
    from that have "i < length (butlast pages)" by simp
    then show ?thesis by (simp add: page_queries_def nth_butlast query_after_def)
  qed
  show ?thesis
    unfolding list_customers_def list_plans_def list_subscriptions_def list_records_def
      list_records_from_pages [OF assms] page_queries_def [symmetric]
    using q h n by simp
qed

lemma mock_get_serves: "serves mock_get (length (sent mock_world)) mock_pages"
  by (simp add: serves_def mock_get_def mock_response_def mock_world_def)

lemma mock_pages_shape:
  "mock_pages \<noteq> []" "\<forall>p \<in> set (butlast mock_pages). items p \<noteq> []"
  "items (last mock_pages) = []"
  by (simp_all add: mock_pages_def)

lemma mock_page_views:
  "page_views c self mock_pages =
     map (\<lambda>g. \<lparr>klass = c, api = PClient self, json_data = mock_record g\<rparr>)
       [''MOCK_RECORD_GUID1'', ''MOCK_RECORD_GUID2'', ''MOCK_RECORD_GUID3'',
        ''MOCK_RECORD_GUID4'', ''MOCK_RECORD_GUID5'']"
  by (simp add: page_views_def mock_pages_def)

lemma mock_page_queries:
  "page_queries mock_pages =
     [Map.empty, [''offset'' \<mapsto> PInt 2, ''limit'' \<mapsto> PInt 2],
      [''offset'' \<mapsto> PInt 4, ''limit'' \<mapsto> PInt 2],
      [''offset'' \<mapsto> PInt 6, ''limit'' \<mapsto> PInt 2]]"
  by (simp add: page_queries_def mock_pages_def query_after_def)

theorem list_records_paginate_witness:
  "serves mock_get (length (sent mock_world)) mock_pages
   \<and> mock_pages \<noteq> [] \<and> items (last mock_pages) = []
   \<and> map (\<lambda>p. length (items p)) mock_pages = [2, 2, 1, 0]
   \<and> list_customers mock_get 0 mock_world =
       Some (Inr (map (\<lambda>g. \<lparr>klass = Customer, api = PClient 0, json_data = mock_record g\<rparr>)
                    [''MOCK_RECORD_GUID1'', ''MOCK_RECORD_GUID2'', ''MOCK_RECORD_GUID3'',
                     ''MOCK_RECORD_GUID4'', ''MOCK_RECORD_GUID5'']),
             mock_world\<lparr>sent := page_requests mock_api ''/v1/customers''
               [Map.empty, [''offset'' \<mapsto> PInt 2, ''limit'' \<mapsto> PInt 2],
                [''offset'' \<mapsto> PInt 4, ''limit'' \<mapsto> PInt 2],
                [''offset'' \<mapsto> PInt 6, ''limit'' \<mapsto> PInt 2]]\<rparr>)
   \<and> length (page_views Customer 0 mock_pages) = 5
   \<and> length (page_requests mock_api ''/v1/customers'' (page_queries mock_pages)) = 4"
proof -
  have len: "map (\<lambda>p. length (items p)) mock_pages = [2, 2, 1, 0]"
    by (simp add: mock_pages_def)
  have w: "sent mock_world = []" "clients mock_world 0 = mock_api"
    by (simp_all add: mock_world_def)
  from list_records_paginate [OF mock_get_serves mock_pages_shape, of 0]
  have "list_customers mock_get 0 mock_world =
          Some (Inr (page_views Customer 0 mock_pages),
                mock_world\<lparr>sent := sent mock_world @ page_requests (clients mock_world 0)
                   ''/v1/customers'' (page_queries mock_pages)\<rparr>)"
    by blast
  then have run: "list_customers mock_get 0 mock_world =
       Some (Inr (map (\<lambda>g. \<lparr>klass = Customer, api = PClient 0, json_data = mock_record g\<rparr>)
                    [''MOCK_RECORD_GUID1'', ''MOCK_RECORD_GUID2'', ''MOCK_RECORD_GUID3'',
                     ''MOCK_RECORD_GUID4'', ''MOCK_RECORD_GUID5'']),
             mock_world\<lparr>sent := page_requests mock_api ''/v1/customers''
               [Map.empty, [''offset'' \<mapsto> PInt 2, ''limit'' \<mapsto> PInt 2],
                [''offset'' \<mapsto> PInt 4, ''limit'' \<mapsto> PInt 2],
                [''offset'' \<mapsto> PInt 6, ''limit'' \<mapsto> PInt 2]]\<rparr>)"
    unfolding w mock_page_views mock_page_queries by simp
  have l5: "length (page_views Customer 0 mock_pages) = 5"
    unfolding mock_page_views by simp
  have l4: "length (page_requests mock_api ''/v1/customers'' (page_queries mock_pages)) = 4"
    unfolding mock_page_queries by (simp add: page_requests_def)
  from mock_get_serves mock_pages_shape(1,3) len run l5 l4 show ?thesis by blast
qed

end
